theory Spec2Isabelle
  imports Complex_Main "HOL-Library.AList"
begin

section \<open>Values, errors and the host library\<close>

text \<open>
  The program is a thin layer over a tabular-data library. Its own code (the class
  \<^verbatim>\<open>GroupByPipedTransforms\<close>) is embedded function by function; what it calls
  in the host library is modelled as far as the code depends on it. Exceptions are
  values: a function that can raise returns \<open>error + 'a\<close>, with \<open>Inl\<close> the exception.
  The messages of the program's own exceptions are those of the source; the messages of
  the host library's exceptions are abbreviated.
\<close>

datatype error =
    TypeError string
  | ValueError string
  | IndexError string
  | AttributeError string

text \<open>
  Numeric cells. A numeric column of the host library holds numbers, missing values
  (NaN) and the two infinities; arithmetic on them follows the IEEE rules for the
  special values. Finite numbers are exact rationals: rounding, signed zeros and the
  wrap-around of fixed-width integer columns are outside the model.
\<close>

datatype xnum = Fin rat | PInf | NInf | NaN

fun xneg :: "xnum \<Rightarrow> xnum" where
  "xneg (Fin a) = Fin (- a)"
| "xneg PInf = NInf"
| "xneg NInf = PInf"
| "xneg NaN = NaN"

fun xadd :: "xnum \<Rightarrow> xnum \<Rightarrow> xnum" where
  "xadd (Fin a) (Fin b) = Fin (a + b)"
| "xadd (Fin a) PInf = PInf"
| "xadd (Fin a) NInf = NInf"
| "xadd PInf (Fin b) = PInf"
| "xadd NInf (Fin b) = NInf"
| "xadd PInf PInf = PInf"
| "xadd NInf NInf = NInf"
| "xadd PInf NInf = NaN"
| "xadd NInf PInf = NaN"
| "xadd NaN y = NaN"
| "xadd x NaN = NaN"

definition xsub :: "xnum \<Rightarrow> xnum \<Rightarrow> xnum" where
  "xsub x y = xadd x (xneg y)"

definition signed_inf :: "bool \<Rightarrow> xnum" where
  "signed_inf negative = (if negative then NInf else PInf)"

fun xmul :: "xnum \<Rightarrow> xnum \<Rightarrow> xnum" where
  "xmul (Fin a) (Fin b) = Fin (a * b)"
| "xmul (Fin a) PInf = (if a = 0 then NaN else signed_inf (a < 0))"
| "xmul (Fin a) NInf = (if a = 0 then NaN else signed_inf (0 < a))"
| "xmul PInf (Fin b) = (if b = 0 then NaN else signed_inf (b < 0))"
| "xmul NInf (Fin b) = (if b = 0 then NaN else signed_inf (0 < b))"
| "xmul PInf PInf = PInf"
| "xmul NInf NInf = PInf"
| "xmul PInf NInf = NInf"
| "xmul NInf PInf = NInf"
| "xmul NaN y = NaN"
| "xmul x NaN = NaN"

fun xdiv :: "xnum \<Rightarrow> xnum \<Rightarrow> xnum" where
  "xdiv (Fin a) (Fin b) =
     (if b = 0 then (if a = 0 then NaN else signed_inf (a < 0)) else Fin (a / b))"
| "xdiv (Fin a) PInf = Fin 0"
| "xdiv (Fin a) NInf = Fin 0"
| "xdiv PInf (Fin b) = signed_inf (b < 0)"
| "xdiv NInf (Fin b) = signed_inf (0 \<le> b)"
| "xdiv PInf PInf = NaN"
| "xdiv NInf NInf = NaN"
| "xdiv PInf NInf = NaN"
| "xdiv NInf PInf = NaN"
| "xdiv NaN y = NaN"
| "xdiv x NaN = NaN"

fun xeq :: "xnum \<Rightarrow> xnum \<Rightarrow> bool" where
  "xeq (Fin a) (Fin b) = (a = b)"
| "xeq PInf PInf = True"
| "xeq NInf NInf = True"
| "xeq x y = False"

text \<open>
  Values that appear as labels, group keys, selectors and non-numeric cells. The
  constructor is the concrete run-time type: a Python \<^verbatim>\<open>int\<close> and a
  \<^verbatim>\<open>numpy.int64\<close> are different types holding the same number, and the code
  compares types. Time stamps and durations are counted in nanoseconds, a time stamp
  from the epoch. Booleans, which are integers in Python, are not among the values.
\<close>

datatype pyval =
    PyInt int
  | NpInt int
  | PyFloat xnum
  | NpFloat xnum
  | PyStr string
  | Timestamp int
  | Timedelta int
  | PyPair pyval pyval

datatype pytype =
    T_int | T_int64 | T_float | T_float64 | T_str | T_Timestamp | T_Timedelta | T_tuple

text \<open>\<^verbatim>\<open>type(v)\<close>\<close>

fun py_type :: "pyval \<Rightarrow> pytype" where
  "py_type (PyInt n) = T_int"
| "py_type (NpInt n) = T_int64"
| "py_type (PyFloat x) = T_float"
| "py_type (NpFloat x) = T_float64"
| "py_type (PyStr s) = T_str"
| "py_type (Timestamp t) = T_Timestamp"
| "py_type (Timedelta d) = T_Timedelta"
| "py_type (PyPair a b) = T_tuple"

text \<open>\<^verbatim>\<open>isinstance(v, int)\<close>: \<^verbatim>\<open>numpy.int64\<close> is not a subclass of \<^verbatim>\<open>int\<close>.\<close>

fun isinstance_int :: "pyval \<Rightarrow> bool" where
  "isinstance_int (PyInt n) = True"
| "isinstance_int v = False"

fun int_of :: "pyval \<Rightarrow> int" where
  "int_of (PyInt n) = n"
| "int_of v = 0"

fun num_view :: "pyval \<Rightarrow> xnum option" where
  "num_view (PyInt n) = Some (Fin (of_int n))"
| "num_view (NpInt n) = Some (Fin (of_int n))"
| "num_view (PyFloat x) = Some x"
| "num_view (NpFloat x) = Some x"
| "num_view v = None"

text \<open>
  The loosely typed equality behind \<^verbatim>\<open>idx in idxList\<close> and
  \<^verbatim>\<open>list(idxList).index(idx)\<close>: numbers compare by value whatever their type, NaN
  equals nothing, and a time stamp matches the integer that counts its nanoseconds
  (the match the source comments on at the type check of \<^verbatim>\<open>_getIdxFrom\<close>).
\<close>

fun py_eq :: "pyval \<Rightarrow> pyval \<Rightarrow> bool" where
  "py_eq (PyStr a) (PyStr b) = (a = b)"
| "py_eq (Timestamp a) (Timestamp b) = (a = b)"
| "py_eq (Timestamp a) (PyInt n) = (a = n)"
| "py_eq (Timestamp a) (NpInt n) = (a = n)"
| "py_eq (PyInt n) (Timestamp a) = (a = n)"
| "py_eq (NpInt n) (Timestamp a) = (a = n)"
| "py_eq (Timedelta a) (Timedelta b) = (a = b)"
| "py_eq (PyPair a b) (PyPair c d) = (py_eq a c \<and> py_eq b d)"
| "py_eq x y =
     (case num_view x of
        None \<Rightarrow> False
      | Some u \<Rightarrow> (case num_view y of None \<Rightarrow> False | Some v \<Rightarrow> xeq u v))"

datatype column = NumCol "xnum list" | ObjCol "pyval list"

text \<open>
  The row axis carries its dtype, as an \<^verbatim>\<open>Index\<close> of the host library does (a
  range axis, the default of a new table, is written by its elements, which are Python
  integers; the elements of an integer axis are \<^verbatim>\<open>numpy.int64\<close>); the
  column axis is the list of column labels, each with the column's data. A column is
  numeric when its dtype is (\<open>NumCol\<close>). Two columns may bear the same label:
  side-by-side concatenation produces such tables.
\<close>

datatype axis_index =
    DatetimeIndex "int list"
  | TimedeltaIndex "int list"
  | RangeIndex "int list"
  | Int64Index "int list"
  | Float64Index "xnum list"
  | ObjectIndex "pyval list"
  | MultiIndex "(pyval \<times> pyval) list"

record table =
  index :: axis_index
  columns :: "(pyval \<times> column) list"

text \<open>The elements of an axis as iteration and \<^verbatim>\<open>list(...)\<close> yield them.\<close>

fun idx_values :: "axis_index \<Rightarrow> pyval list" where
  "idx_values (DatetimeIndex ts) = map Timestamp ts"
| "idx_values (TimedeltaIndex ds) = map Timedelta ds"
| "idx_values (RangeIndex ns) = map PyInt ns"
| "idx_values (Int64Index ns) = map NpInt ns"
| "idx_values (Float64Index xs) = map NpFloat xs"
| "idx_values (ObjectIndex vs) = vs"
| "idx_values (MultiIndex ps) = map (\<lambda>(a, b). PyPair a b) ps"

definition idx_len :: "axis_index \<Rightarrow> nat" where
  "idx_len ix = length (idx_values ix)"

text \<open>
  What the code calls in the host library and the model leaves open: the rendering of
  a value inside an f-string, the label-aligning concatenation of tables along an axis
  (with the keyword arguments that \<^verbatim>\<open>concat\<close> passes through), the ISO rendering
  of a time stamp and the JSON encoder. They are parameters of the model.
\<close>

record host =
  format_value :: "pyval \<Rightarrow> string"
  pd_concat :: "table list \<Rightarrow> int \<Rightarrow> error + table"
  isoformat :: "int \<Rightarrow> string"
  json_dumps :: "(pyval \<times> pyval) list list \<Rightarrow> error + string"

text \<open>Running a function over a list, stopping at the first exception.\<close>

fun traverse :: "('a \<Rightarrow> error + 'b) \<Rightarrow> 'a list \<Rightarrow> error + 'b list" where
  "traverse f [] = Inr []"
| "traverse f (x # xs) =
     (case f x of
        Inl e \<Rightarrow> Inl e
      | Inr y \<Rightarrow> (case traverse f xs of Inl e \<Rightarrow> Inl e | Inr ys \<Rightarrow> Inr (y # ys)))"

text \<open>Positional access \<^verbatim>\<open>xs[i]\<close>, \<^verbatim>\<open>x.iloc[i]\<close>: a negative position counts from the end.\<close>

definition iloc :: "'a list \<Rightarrow> int \<Rightarrow> error + 'a" where
  "iloc xs i =
     (if 0 \<le> i \<and> i < int (length xs) then Inr (xs ! nat i)
      else if i < 0 \<and> - int (length xs) \<le> i then Inr (xs ! nat (int (length xs) + i))
      else Inl (IndexError ''single positional indexer is out-of-bounds''))"

section \<open>The pipeline accumulator\<close>

text \<open>\<^verbatim>\<open>functools.reduce(function, iterable, initial)\<close>, with a function that may raise.\<close>

fun reduce :: "('b \<Rightarrow> 'a \<Rightarrow> error + 'b) \<Rightarrow> 'a list \<Rightarrow> 'b \<Rightarrow> error + 'b" where
  "reduce f [] acc = Inr acc"
| "reduce f (g # gs) acc =
     (case f acc g of Inl e \<Rightarrow> Inl e | Inr acc' \<Rightarrow> reduce f gs acc')"

text \<open>\<^verbatim>\<open>_pipe(*funcs)\<close>: \<^verbatim>\<open>lambda x: reduce(lambda f, g: g(f), list(funcs), x)\<close>\<close>

definition pipe_static :: "('a \<Rightarrow> error + 'a) list \<Rightarrow> 'a \<Rightarrow> error + 'a" where
  "pipe_static funcs = (\<lambda>x. reduce (\<lambda>f g. g f) funcs x)"

text \<open>
  The wrapper instance: the wrapped object, a table or (after \<^verbatim>\<open>groupby\<close>) a
  grouping, which iterates as pairs of group key and group table, and the pending
  pipeline.
\<close>

datatype wrapped = Frame table | Grouped "(pyval \<times> table) list"

record wrapper =
  obj :: wrapped
  pipedFunctions :: "(table \<Rightarrow> error + table) list"

text \<open>\<^verbatim>\<open>pipe(*functions)\<close>: \<^verbatim>\<open>self._pipedFunctions.extend(functions)\<close>\<close>

definition pipe :: "wrapper \<Rightarrow> (table \<Rightarrow> error + table) list \<Rightarrow> wrapper" where
  "pipe w functions = w\<lparr>pipedFunctions := pipedFunctions w @ functions\<rparr>"

text \<open>The property \<^verbatim>\<open>pipeline\<close>: \<^verbatim>\<open>self._pipe(*self._pipedFunctions)\<close>\<close>

definition pipeline :: "wrapper \<Rightarrow> table \<Rightarrow> error + table" where
  "pipeline w = pipe_static (pipedFunctions w)"

text \<open>
  The specification's reading of a composed pipeline, \<open>f\<^sub>n(...f\<^sub>2(f\<^sub>1(x)))\<close>: the
  outermost function first, applied to the value of the nested call; an exception of
  an inner call is the exception of the whole expression.
\<close>

fun nested_call :: "('a \<Rightarrow> error + 'a) list \<Rightarrow> 'a \<Rightarrow> error + 'a" where
  "nested_call [] x = Inr x"
| "nested_call (f # inner) x =
     (case nested_call inner x of Inl e \<Rightarrow> Inl e | Inr y \<Rightarrow> f y)"

definition left_to_right :: "('a \<Rightarrow> error + 'a) list \<Rightarrow> 'a \<Rightarrow> error + 'a" where
  "left_to_right fs x = nested_call (rev fs) x"

section \<open>The axis resolver\<close>

text \<open>\<^verbatim>\<open>idx in idxList\<close>\<close>

definition contains :: "pyval \<Rightarrow> pyval list \<Rightarrow> bool" where
  "contains idx idxList = list_ex (\<lambda>v. py_eq v idx) idxList"

text \<open>\<^verbatim>\<open>list(idxList).index(idx)\<close>: the first position whose element equals \<open>idx\<close>.\<close>

fun list_index :: "pyval list \<Rightarrow> pyval \<Rightarrow> error + nat" where
  "list_index [] idx = Inl (ValueError ''value is not in list'')"
| "list_index (v # vs) idx =
     (if py_eq v idx then Inr 0
      else (case list_index vs idx of Inl e \<Rightarrow> Inl e | Inr p \<Rightarrow> Inr (Suc p)))"

text \<open>
  \<^verbatim>\<open>_getIdxFrom(idx, idxList, axis)\<close>. The type of the first element is read only
  when \<open>idx\<close> is in the list, which is then not empty.
\<close>

definition getIdxFrom :: "host \<Rightarrow> pyval \<Rightarrow> pyval list \<Rightarrow> string \<Rightarrow> error + int" where
  "getIdxFrom H idx idxList axis =
     (if contains idx idxList \<and> py_type idx = py_type (hd idxList) then
        (case list_index idxList idx of Inl e \<Rightarrow> Inl e | Inr p \<Rightarrow> Inr (int p))
      else if \<not> isinstance_int idx then
        Inl (TypeError (format_value H idx @ '' is not a valid ''
               @ (if axis = ''index'' then ''index'' else ''columns'') @ '' identifier.''))
      else if isinstance_int idx then Inr (int_of idx)
      else Inl (ValueError ''An error occured when retrieving the index.''))"

section \<open>The index normalizer\<close>

text \<open>\<^verbatim>\<open>np.issubdtype(df.index, np.datetime64)\<close>\<close>

fun is_datetime_index :: "axis_index \<Rightarrow> bool" where
  "is_datetime_index (DatetimeIndex ts) = True"
| "is_datetime_index ix = False"

text \<open>\<^verbatim>\<open>x[resetPosition]\<close> on an axis: positional.\<close>

definition index_getitem :: "axis_index \<Rightarrow> int \<Rightarrow> error + pyval" where
  "index_getitem ix i = iloc (idx_values ix) i"

fun is_numpy :: "pyval \<Rightarrow> bool" where
  "is_numpy (NpInt n) = True"
| "is_numpy (NpFloat x) = True"
| "is_numpy v = False"

text \<open>Subtraction of two values, as an axis of dtype object applies it to its elements.\<close>

fun py_sub :: "pyval \<Rightarrow> pyval \<Rightarrow> error + pyval" where
  "py_sub (Timestamp a) (Timestamp b) = Inr (Timedelta (a - b))"
| "py_sub (Timestamp a) (Timedelta d) = Inr (Timestamp (a - d))"
| "py_sub (Timedelta a) (Timedelta b) = Inr (Timedelta (a - b))"
| "py_sub (PyInt a) (PyInt b) = Inr (PyInt (a - b))"
| "py_sub (PyInt a) (NpInt b) = Inr (NpInt (a - b))"
| "py_sub (NpInt a) (PyInt b) = Inr (NpInt (a - b))"
| "py_sub (NpInt a) (NpInt b) = Inr (NpInt (a - b))"
| "py_sub x y =
     (case num_view x of
        None \<Rightarrow> Inl (TypeError ''unsupported operand type(s) for -'')
      | Some u \<Rightarrow>
          (case num_view y of
             None \<Rightarrow> Inl (TypeError ''unsupported operand type(s) for -'')
           | Some v \<Rightarrow>
               Inr (if is_numpy x \<or> is_numpy y then NpFloat (xsub u v)
                    else PyFloat (xsub u v))))"

text \<open>
  \<^verbatim>\<open>x - v\<close> for an axis \<open>x\<close> and a scalar \<open>v\<close>. A time-stamp axis minus a time stamp
  is an axis of durations.
\<close>

fun index_sub :: "axis_index \<Rightarrow> pyval \<Rightarrow> error + axis_index" where
  "index_sub (DatetimeIndex ts) (Timestamp t0) = Inr (TimedeltaIndex (map (\<lambda>t. t - t0) ts))"
| "index_sub (DatetimeIndex ts) (Timedelta d) = Inr (DatetimeIndex (map (\<lambda>t. t - d) ts))"
| "index_sub (TimedeltaIndex ds) (Timedelta d0) = Inr (TimedeltaIndex (map (\<lambda>d. d - d0) ds))"
| "index_sub (RangeIndex ns) (PyInt n0) = Inr (RangeIndex (map (\<lambda>n. n - n0) ns))"
| "index_sub (RangeIndex ns) (NpInt n0) = Inr (Int64Index (map (\<lambda>n. n - n0) ns))"
| "index_sub (RangeIndex ns) v =
     (case num_view v of
        None \<Rightarrow> Inl (TypeError ''unsupported operand type(s) for -'')
      | Some x0 \<Rightarrow> Inr (Float64Index (map (\<lambda>n. xsub (Fin (of_int n)) x0) ns)))"
| "index_sub (Int64Index ns) (NpInt n0) = Inr (Int64Index (map (\<lambda>n. n - n0) ns))"
| "index_sub (Int64Index ns) (PyInt n0) = Inr (Int64Index (map (\<lambda>n. n - n0) ns))"
| "index_sub (Int64Index ns) v =
     (case num_view v of
        None \<Rightarrow> Inl (TypeError ''unsupported operand type(s) for -'')
      | Some x0 \<Rightarrow> Inr (Float64Index (map (\<lambda>n. xsub (Fin (of_int n)) x0) ns)))"
| "index_sub (Float64Index xs) v =
     (case num_view v of
        None \<Rightarrow> Inl (TypeError ''unsupported operand type(s) for -'')
      | Some x0 \<Rightarrow> Inr (Float64Index (map (\<lambda>x. xsub x x0) xs)))"
| "index_sub (ObjectIndex vs) v =
     (case traverse (\<lambda>u. py_sub u v) vs of
        Inl e \<Rightarrow> Inl e
      | Inr ws \<Rightarrow> Inr (ObjectIndex ws))"
| "index_sub ix v = Inl (TypeError ''cannot perform __sub__ with this index type'')"

text \<open>
  \<^verbatim>\<open>pd.to_datetime\<close> on an axis, as the host library of the code's time answers
  it: an axis of durations is reinterpreted, with a deprecation warning, as the time
  stamps lying that far after the epoch (its nanosecond counts are read as time
  stamps), and integers are nanoseconds since the epoch. Text and floating-point
  input, which the code never passes, is not modelled. Later versions of the host
  library refuse the axis of durations with a \<^verbatim>\<open>TypeError\<close> instead.
\<close>

fun to_datetime :: "axis_index \<Rightarrow> error + axis_index" where
  "to_datetime (TimedeltaIndex ds) = Inr (DatetimeIndex ds)"
| "to_datetime (DatetimeIndex ts) = Inr (DatetimeIndex ts)"
| "to_datetime (RangeIndex ns) = Inr (DatetimeIndex ns)"
| "to_datetime (Int64Index ns) = Inr (DatetimeIndex ns)"
| "to_datetime ix = Inl (TypeError ''conversion to time stamps is not modelled for this axis'')"

text \<open>\<^verbatim>\<open>df.set_index(keys=...)\<close> with an axis: a new table, the data unchanged.\<close>

definition set_index :: "table \<Rightarrow> axis_index \<Rightarrow> error + table" where
  "set_index df keys =
     (if idx_len keys \<noteq> idx_len (index df) then Inl (ValueError ''Length mismatch'')
      else Inr (df\<lparr>index := keys\<rparr>))"

text \<open>\<^verbatim>\<open>_resetIndex(df, resetPosition=0, handleFuture=True)\<close>\<close>

definition resetIndex_static :: "table \<Rightarrow> int \<Rightarrow> bool \<Rightarrow> error + table" where
  "resetIndex_static df resetPosition handleFuture =
     (let isIndexTimeType = is_datetime_index (index df);
          func = (\<lambda>x. case index_getitem x resetPosition of
                         Inl e \<Rightarrow> Inl e
                       | Inr r \<Rightarrow> index_sub x r)
      in if isIndexTimeType \<and> handleFuture then
           (case func (index df) of
              Inl e \<Rightarrow> Inl e
            | Inr offsets \<Rightarrow>
                (case to_datetime offsets of
                   Inl e \<Rightarrow> Inl e
                 | Inr keys \<Rightarrow> set_index df keys))
         else
           (case func (index df) of
              Inl e \<Rightarrow> Inl e
            | Inr keys \<Rightarrow> set_index df keys))"

text \<open>
  The method \<^verbatim>\<open>resetIndex(self, handleFuture=True)\<close>: its body is
  \<^verbatim>\<open>self.pipe(self._resetIndex)\<close>, so the registered step is later called with
  the table alone and both optional parameters of \<^verbatim>\<open>_resetIndex\<close> take their
  defaults; the argument \<open>handleFuture\<close> of the method is not used.
\<close>

definition resetIndex :: "wrapper \<Rightarrow> bool \<Rightarrow> wrapper" where
  "resetIndex w handleFuture = pipe w [\<lambda>df. resetIndex_static df 0 True]"

text \<open>
  What the specification asks of the axis entry at position \<open>i\<close> after re-basing on the
  reference entry: the offset \<open>original[i] - original[reference]\<close>, a number on a
  numeric axis and a duration on a time-like axis.
\<close>

fun offset_from :: "pyval \<Rightarrow> pyval \<Rightarrow> pyval" where
  "offset_from (Timestamp t0) (Timestamp t) = Timedelta (t - t0)"
| "offset_from (PyInt n0) (PyInt n) = PyInt (n - n0)"
| "offset_from (NpInt n0) (NpInt n) = NpInt (n - n0)"
| "offset_from (NpFloat x0) (NpFloat x) = NpFloat (xsub x x0)"
| "offset_from r v = v"

text \<open>The time stamp lying a duration after the epoch.\<close>

fun after_epoch :: "pyval \<Rightarrow> pyval" where
  "after_epoch (Timedelta d) = Timestamp d"
| "after_epoch v = v"

text \<open>The axes on which re-basing is defined by subtraction of numbers or of time stamps.\<close>

fun numeric_or_time :: "axis_index \<Rightarrow> bool" where
  "numeric_or_time (DatetimeIndex ts) = True"
| "numeric_or_time (RangeIndex ns) = True"
| "numeric_or_time (Int64Index ns) = True"
| "numeric_or_time (Float64Index xs) = True"
| "numeric_or_time ix = False"

section \<open>The row/column operator\<close>

text \<open>\<^verbatim>\<open>df.select_dtypes(include=[np.number])\<close>: the numeric columns, in order.\<close>

fun select_dtypes_number :: "(pyval \<times> column) list \<Rightarrow> (pyval \<times> xnum list) list" where
  "select_dtypes_number [] = []"
| "select_dtypes_number ((l, NumCol xs) # cs) = (l, xs) # select_dtypes_number cs"
| "select_dtypes_number ((l, ObjCol vs) # cs) = select_dtypes_number cs"

text \<open>
  \<^verbatim>\<open>frame.apply(func, axis=...)\<close> for \<^verbatim>\<open>func = lambda x: x op x.iloc[pos]\<close>. With
  \<^verbatim>\<open>axis='index'\<close> the function receives each column, with \<^verbatim>\<open>axis='columns'\<close>
  each row. A frame with no row or no column is returned as a copy: the host library
  tries the function on an empty series there and ignores its exception.
\<close>

definition apply_func :: "(xnum \<Rightarrow> xnum \<Rightarrow> xnum) \<Rightarrow> int \<Rightarrow> xnum list \<Rightarrow> error + xnum list" where
  "apply_func f pos x =
     (case iloc x pos of Inl e \<Rightarrow> Inl e | Inr r \<Rightarrow> Inr (map (\<lambda>v. f v r) x))"

definition rows_of :: "'a list list \<Rightarrow> nat \<Rightarrow> 'a list list" where
  "rows_of cols n = map (\<lambda>i. map (\<lambda>c. c ! i) cols) [0..<n]"

definition apply_frame ::
  "(xnum \<Rightarrow> xnum \<Rightarrow> xnum) \<Rightarrow> int \<Rightarrow> string \<Rightarrow> xnum list list \<Rightarrow> nat \<Rightarrow> error + xnum list list"
where
  "apply_frame f pos axis cols nrows =
     (if cols = [] \<or> nrows = 0 then Inr cols
      else if axis = ''index'' then traverse (apply_func f pos) cols
      else (case traverse (apply_func f pos) (rows_of cols nrows) of
              Inl e \<Rightarrow> Inl e
            | Inr rows \<Rightarrow> Inr (rows_of rows (length cols))))"

text \<open>\<^verbatim>\<open>df.loc[:, numericCols] = ...\<close>: the numeric columns receive the new data.\<close>

fun assign_numeric :: "(pyval \<times> column) list \<Rightarrow> xnum list list \<Rightarrow> (pyval \<times> column) list" where
  "assign_numeric [] new = []"
| "assign_numeric ((l, ObjCol vs) # cs) new = (l, ObjCol vs) # assign_numeric cs new"
| "assign_numeric ((l, NumCol xs) # cs) [] = (l, NumCol xs) # assign_numeric cs []"
| "assign_numeric ((l, NumCol xs) # cs) (n # new) = (l, NumCol n) # assign_numeric cs new"

definition operation_func :: "string \<Rightarrow> (xnum \<Rightarrow> xnum \<Rightarrow> xnum) option" where
  "operation_func operation =
     (if operation = ''subtract'' then Some xsub
      else if operation = ''add'' then Some xadd
      else if operation = ''multiply'' then Some xmul
      else if operation = ''divide'' then Some xdiv
      else None)"

text \<open>
  Two labels select the same columns when they are the same value or compare equal.
\<close>

definition same_label :: "pyval \<Rightarrow> pyval \<Rightarrow> bool" where
  "same_label a b = (a = b \<or> py_eq a b)"

text \<open>
  Selection of columns by a list of labels, \<^verbatim>\<open>df.loc[:, labels]\<close>: for each label in
  turn, every column that bears it.
\<close>

definition loc_columns :: "(pyval \<times> column) list \<Rightarrow> pyval list \<Rightarrow> (pyval \<times> column) list" where
  "loc_columns cols labels = concat (map (\<lambda>l. filter (\<lambda>c. same_label (fst c) l) cols) labels)"

text \<open>
  \<^verbatim>\<open>df.loc[:, numericCols]\<close> selects, and is assigned to, by label. When the
  label of each numeric column is borne by that column alone, the columns selected are
  the numeric columns, each once and in order (\<open>loc_columns_numeric\<close> below).
\<close>

definition numeric_labels_unique :: "(pyval \<times> column) list \<Rightarrow> bool" where
  "numeric_labels_unique cols =
     list_all (\<lambda>l. length (filter (\<lambda>c. same_label (fst c) l) cols) = 1)
       (map fst (select_dtypes_number cols))"

text \<open>
  \<^verbatim>\<open>_execute(self, df, index=0, column=None, operation="subtract")\<close>. The table is
  changed in place and returned: the result is the exception raised, if any, paired
  with the state of the table when the call ends. The selection
  \<^verbatim>\<open>df.loc[:, numericCols]\<close> and the assignment to it are modelled where
  \<open>numeric_labels_unique\<close> holds, as the selection and replacement of the numeric
  columns. Where a numeric column shares its label with another column, the selection
  takes that column as well and the assignment goes through duplicate labels; what the
  host library does there is not modelled, and the result is left unspecified.
\<close>

definition execute ::
  "host \<Rightarrow> table \<Rightarrow> pyval \<Rightarrow> pyval option \<Rightarrow> string \<Rightarrow> error option \<times> table"
where
  "execute H df idx column operation =
     (let numericCols = select_dtypes_number (columns df);
          axis = (if column = None then ''index'' else ''columns'')
      in case (case column of
                 None \<Rightarrow> getIdxFrom H idx (idx_values (index df)) axis
               | Some c \<Rightarrow> getIdxFrom H c (map fst numericCols) axis) of
           Inl e \<Rightarrow> (Some e, df)
         | Inr pos \<Rightarrow>
             (case operation_func operation of
                None \<Rightarrow>
                  (Some (ValueError
                     ''The provided operation to perform is not of subtract/add/multiply/divide''),
                   df)
              | Some f \<Rightarrow>
                  (if \<not> numeric_labels_unique (columns df) then undefined
                   else
                     (case apply_frame f pos axis (map snd numericCols) (idx_len (index df)) of
                        Inl e \<Rightarrow> (Some e, df)
                      | Inr new \<Rightarrow> (None, df\<lparr>columns := assign_numeric (columns df) new\<rparr>)))))"

text \<open>A registered step \<^verbatim>\<open>lambda x: self._execute(x, ...)\<close>.\<close>

definition execute_step ::
  "host \<Rightarrow> pyval \<Rightarrow> pyval option \<Rightarrow> string \<Rightarrow> table \<Rightarrow> error + table"
where
  "execute_step H idx column operation x =
     (case execute H x idx column operation of
        (None, df) \<Rightarrow> Inr df
      | (Some e, df) \<Rightarrow> Inl e)"

definition resetStartingValues :: "host \<Rightarrow> wrapper \<Rightarrow> wrapper" where
  "resetStartingValues H w = pipe w [execute_step H (PyInt 0) None ''subtract'']"

definition subtract_op :: "host \<Rightarrow> wrapper \<Rightarrow> pyval \<Rightarrow> pyval option \<Rightarrow> wrapper" where
  "subtract_op H w idx column = pipe w [execute_step H idx column ''subtract'']"

definition add_op :: "host \<Rightarrow> wrapper \<Rightarrow> pyval \<Rightarrow> pyval option \<Rightarrow> wrapper" where
  "add_op H w idx column = pipe w [execute_step H idx column ''add'']"

definition multiply_op :: "host \<Rightarrow> wrapper \<Rightarrow> pyval \<Rightarrow> pyval option \<Rightarrow> wrapper" where
  "multiply_op H w idx column = pipe w [execute_step H idx column ''multiply'']"

definition divide_op :: "host \<Rightarrow> wrapper \<Rightarrow> pyval \<Rightarrow> pyval option \<Rightarrow> wrapper" where
  "divide_op H w idx column = pipe w [execute_step H idx column ''divide'']"

text \<open>
  A table is well formed when every column has one cell for each row and no numeric
  column shares its label with another column (column names are unique in the data
  model of the specification).
\<close>

fun column_len :: "column \<Rightarrow> nat" where
  "column_len (NumCol xs) = length xs"
| "column_len (ObjCol vs) = length vs"

definition well_formed :: "table \<Rightarrow> bool" where
  "well_formed df =
     (numeric_labels_unique (columns df)
      \<and> list_all (\<lambda>c. column_len (snd c) = idx_len (index df)) (columns df))"

text \<open>
  The position a selector resolves to in \<^verbatim>\<open>_execute\<close>: along the rows when no
  column is given, along the numeric columns otherwise.
\<close>

definition resolved_position :: "host \<Rightarrow> table \<Rightarrow> pyval \<Rightarrow> pyval option \<Rightarrow> error + int" where
  "resolved_position H df idx column =
     (case column of
        None \<Rightarrow> getIdxFrom H idx (idx_values (index df)) ''index''
      | Some c \<Rightarrow> getIdxFrom H c (map fst (select_dtypes_number (columns df))) ''columns'')"


text \<open>
  What the specification asks of a column after the subtraction of the reference row
  at position 0: \<open>original[i, c] - original[0, c]\<close> in a numeric column, the column
  itself otherwise.
\<close>

fun subtract_reference :: "column \<Rightarrow> column" where
  "subtract_reference (NumCol xs) = NumCol (map (\<lambda>v. xsub v (hd xs)) xs)"
| "subtract_reference (ObjCol vs) = ObjCol vs"

section \<open>Construction and grouping\<close>

datatype pandas_obj = DataFrame table | Series axis_index column | NotPandas

text \<open>\<^verbatim>\<open>_validate(obj)\<close>\<close>

definition validate :: "pandas_obj \<Rightarrow> error + unit" where
  "validate p =
     (case p of
        NotPandas \<Rightarrow> Inl (AttributeError ''The object must be a pandas DataFrame or Series.'')
      | _ \<Rightarrow> Inr ())"

text \<open>\<^verbatim>\<open>_convertToDataFrame(obj, colName="Value")\<close>; called on validated objects.\<close>

definition convertToDataFrame :: "pandas_obj \<Rightarrow> table" where
  "convertToDataFrame p =
     (case p of
        Series ix values \<Rightarrow> \<lparr>index = ix, columns = [(PyStr ''Value'', values)]\<rparr>
      | DataFrame df \<Rightarrow> df
      | NotPandas \<Rightarrow> \<lparr>index = ObjectIndex [], columns = []\<rparr>)"

text \<open>\<^verbatim>\<open>__init__(self, pandas_obj)\<close>\<close>

definition init :: "pandas_obj \<Rightarrow> error + wrapper" where
  "init p =
     (case validate p of
        Inl e \<Rightarrow> Inl e
      | Inr u \<Rightarrow> Inr \<lparr>obj = Frame (convertToDataFrame p), pipedFunctions = []\<rparr>)"

text \<open>
  \<^verbatim>\<open>groupby(self, grouper, **args)\<close>. The grouping primitive of the host library,
  with its arguments, is the function \<open>grouper\<close>.
\<close>

definition groupby ::
  "wrapper \<Rightarrow> (table \<Rightarrow> error + (pyval \<times> table) list) \<Rightarrow> error + wrapper"
where
  "groupby w grouper =
     (case obj w of
        Frame df \<Rightarrow>
          (case grouper df of Inl e \<Rightarrow> Inl e | Inr g \<Rightarrow> Inr (w\<lparr>obj := Grouped g\<rparr>))
      | Grouped g \<Rightarrow> Inr w)"

section \<open>The group reassembler\<close>

text \<open>\<^verbatim>\<open>_validatePipelineObject(obj)\<close>\<close>

definition validatePipelineObject :: "wrapped \<Rightarrow> error + (pyval \<times> table) list" where
  "validatePipelineObject ob =
     (case ob of
        Frame df \<Rightarrow>
          Inl (TypeError
            ''A groupby operation has to be applied before a pipeline can be executed.'')
      | Grouped g \<Rightarrow> Inr g)"

definition column_labels :: "table \<Rightarrow> pyval list" where
  "column_labels df = map fst (columns df)"

definition row_labels :: "table \<Rightarrow> pyval list" where
  "row_labels df = idx_values (index df)"

text \<open>
  The two list comprehensions of \<^verbatim>\<open>concat\<close> over the grouping \<open>g\<close>, for the labels
  selected by \<open>labels\<close> (\<^verbatim>\<open>x[1].columns\<close> or \<^verbatim>\<open>x[1].index\<close>):
  \<^verbatim>\<open>[name for subset in map(lambda x: map(lambda y: ..., labels(x[1])), g) for name in subset]\<close>
\<close>

definition newNames_join ::
  "host \<Rightarrow> string \<Rightarrow> (table \<Rightarrow> pyval list) \<Rightarrow> (pyval \<times> table) list \<Rightarrow> string list"
where
  "newNames_join H sep labels g =
     concat (map (\<lambda>x. map (\<lambda>y. format_value H y @ sep @ format_value H (fst x))
                          (labels (snd x))) g)"

definition newNames_hierarchy ::
  "(table \<Rightarrow> pyval list) \<Rightarrow> (pyval \<times> table) list \<Rightarrow> (pyval \<times> pyval) list"
where
  "newNames_hierarchy labels g =
     concat (map (\<lambda>x. map (\<lambda>y. (fst x, y)) (labels (snd x))) g)"

text \<open>\<^verbatim>\<open>pd.MultiIndex.from_tuples(...)\<close> refuses an empty list.\<close>

definition from_tuples :: "(pyval \<times> pyval) list \<Rightarrow> error + (pyval \<times> pyval) list" where
  "from_tuples ps =
     (if ps = [] then Inl (TypeError ''Cannot infer number of levels from empty list'')
      else Inr ps)"

text \<open>
  \<^verbatim>\<open>concatenated.columns = ...\<close> and \<^verbatim>\<open>concatenated.index = ...\<close>: the host
  library refuses labels whose number is not the length of the axis.
\<close>

definition set_columns :: "table \<Rightarrow> pyval list \<Rightarrow> error + table" where
  "set_columns df names =
     (if length names \<noteq> length (columns df) then Inl (ValueError ''Length mismatch'')
      else Inr (df\<lparr>columns := zip names (map snd (columns df))\<rparr>))"

definition then_do :: "error + 'a \<Rightarrow> ('a \<Rightarrow> error + 'b) \<Rightarrow> error + 'b" where
  "then_do r f = (case r of Inl e \<Rightarrow> Inl e | Inr x \<Rightarrow> f x)"

text \<open>The four relabelling blocks of \<^verbatim>\<open>concat\<close>, run one after the other.\<close>

definition relabel ::
  "host \<Rightarrow> (pyval \<times> table) list \<Rightarrow> string option \<Rightarrow> string \<Rightarrow> int \<Rightarrow> table \<Rightarrow> error + table"
where
  "relabel H g multiIndex sep axis concatenated =
     then_do
       (if axis = 1 \<and> multiIndex = Some ''join'' then
          set_columns concatenated (map PyStr (newNames_join H sep column_labels g))
        else Inr concatenated)
     (\<lambda>c1. then_do
       (if axis = 1 \<and> multiIndex = Some ''hierarchy'' then
          then_do (from_tuples (newNames_hierarchy column_labels g))
            (\<lambda>ps. set_columns c1 (map (\<lambda>(k, y). PyPair k y) ps))
        else Inr c1)
     (\<lambda>c2. then_do
       (if axis = 0 \<and> multiIndex = Some ''join'' then
          set_index c2 (ObjectIndex (map PyStr (newNames_join H sep row_labels g)))
        else Inr c2)
     (\<lambda>c3.
       (if axis = 0 \<and> multiIndex = Some ''hierarchy'' then
          then_do (from_tuples (newNames_hierarchy row_labels g))
            (\<lambda>ps. set_index c3 (MultiIndex ps))
        else Inr c3))))"

text \<open>
  \<^verbatim>\<open>concat(self, multiIndex='hierarchy', sep='|', **kwargs)\<close>, with
  \<^verbatim>\<open>axis = kwargs.pop('axis', 1)\<close>. The argument \<open>multiIndex\<close> is \<open>Some s\<close> for a
  text \<open>s\<close> and \<open>None\<close> for \<^verbatim>\<open>False\<close>; the remaining keyword arguments are part of
  the concatenation \<open>pd_concat H\<close>. The result is the table returned or the exception
  raised, paired with the wrapper as the call leaves it.
\<close>

definition concat_groups ::
  "host \<Rightarrow> wrapper \<Rightarrow> string option \<Rightarrow> string \<Rightarrow> int \<Rightarrow> (error + table) \<times> wrapper"
where
  "concat_groups H w multiIndex sep axis =
     (case validatePipelineObject (obj w) of
        Inl e \<Rightarrow> (Inl e, w)
      | Inr g \<Rightarrow>
          (case traverse (\<lambda>x. pipeline w (snd x)) g of
             Inl e \<Rightarrow> (Inl e, w)
           | Inr transformed \<Rightarrow>
               (case pd_concat H transformed axis of
                  Inl e \<Rightarrow> (Inl e, w)
                | Inr concatenated \<Rightarrow>
                    (case relabel H g multiIndex sep axis concatenated of
                       Inl e \<Rightarrow> (Inl e, w)
                     | Inr result \<Rightarrow> (Inr result, w\<lparr>pipedFunctions := []\<rparr>)))))"

text \<open>
  The labels the specification gives the reassembled table. Flat: the text
  \<open>"{L}{separator}{G}"\<close> for each label \<open>L\<close> of each group \<open>G\<close>, group after group in
  iteration order. Two-level: the pair \<open>(G, L)\<close>.
\<close>

fun joined_labels ::
  "host \<Rightarrow> string \<Rightarrow> (table \<Rightarrow> pyval list) \<Rightarrow> (pyval \<times> table) list \<Rightarrow> pyval list"
where
  "joined_labels H sep labels [] = []"
| "joined_labels H sep labels ((G, t) # groups) =
     map (\<lambda>L. PyStr (format_value H L @ sep @ format_value H G)) (labels t)
       @ joined_labels H sep labels groups"

fun paired_labels :: "(table \<Rightarrow> pyval list) \<Rightarrow> (pyval \<times> table) list \<Rightarrow> pyval list" where
  "paired_labels labels [] = []"
| "paired_labels labels ((G, t) # groups) =
     map (\<lambda>L. PyPair G L) (labels t) @ paired_labels labels groups"

definition labels_of_groups ::
  "host \<Rightarrow> string option \<Rightarrow> string \<Rightarrow> (table \<Rightarrow> pyval list) \<Rightarrow> (pyval \<times> table) list
     \<Rightarrow> pyval list"
where
  "labels_of_groups H multiIndex sep labels g =
     (if multiIndex = Some ''join'' then joined_labels H sep labels g
      else paired_labels labels g)"

section \<open>Export\<close>

fun cell :: "column \<Rightarrow> nat \<Rightarrow> pyval" where
  "cell (NumCol xs) i = PyFloat (xs ! i)"
| "cell (ObjCol vs) i = vs ! i"

text \<open>
  \<^verbatim>\<open>concatenated.to_dict(orient="records")\<close>: one dictionary per row, from column
  label to cell, built in column order. A dictionary is an association list in
  insertion order.
\<close>

definition to_dict_records :: "table \<Rightarrow> (pyval \<times> pyval) list list" where
  "to_dict_records df =
     map (\<lambda>i. foldl (\<lambda>d c. AList.update (fst c) (cell (snd c) i) d) [] (columns df))
       [0..<idx_len (index df)]"

text \<open>The text \<^verbatim>\<open>f"{idx}"\<close> written for a row label.\<close>

definition row_text :: "host \<Rightarrow> bool \<Rightarrow> pyval \<Rightarrow> string" where
  "row_text H isIndexTimeType v =
     (if \<not> isIndexTimeType then format_value H v
      else (case v of Timestamp t \<Rightarrow> isoformat H t | _ \<Rightarrow> format_value H v))"

text \<open>
  \<^verbatim>\<open>toJSON(self, fileName, rowIndicesFieldName='idx_', addMultiIndexWithSep='|', **kwargs)\<close>.
  The two optional arguments are texts, falsy when empty. The file system maps a
  path to the content of its file; opening the file for writing empties it before
  the document is encoded. The result is the exception raised, if any, the wrapper
  and the file system as the call leaves them.
\<close>

definition toJSON ::
  "host \<Rightarrow> wrapper \<Rightarrow> string \<Rightarrow> string \<Rightarrow> string \<Rightarrow> int \<Rightarrow> (string \<rightharpoonup> string)
     \<Rightarrow> error option \<times> wrapper \<times> (string \<rightharpoonup> string)"
where
  "toJSON H w fileName rowIndicesFieldName addMultiIndexWithSep axis fs =
     (case concat_groups H w
             (if addMultiIndexWithSep \<noteq> [] then Some ''join'' else None)
             addMultiIndexWithSep axis of
        (Inl e, w') \<Rightarrow> (Some e, w', fs)
      | (Inr concatenated, w') \<Rightarrow>
          (let dict_toExport = to_dict_records concatenated;
               isIndexTimeType = is_datetime_index (index concatenated);
               dict_toExport' =
                 (if rowIndicesFieldName \<noteq> [] then
                    map (\<lambda>(d, v). AList.update (PyStr rowIndicesFieldName)
                                    (PyStr (row_text H isIndexTimeType v)) d)
                      (zip dict_toExport (idx_values (index concatenated)))
                  else dict_toExport)
           in case json_dumps H dict_toExport' of
                Inl e \<Rightarrow> (Some e, w', fs(fileName \<mapsto> []))
              | Inr s \<Rightarrow>
                  (None, w',
                   fs(fileName \<mapsto> ''{'' @ [CHR 0x22] @ ''data'' @ [CHR 0x22] @ '': '' @ s @ ''}''))))"

section \<open>A reference host and example tables\<close>

text \<open>
  An instance of the host capabilities on which the model runs on concrete tables. Its
  rendering is exact on text values. Its concatenation is exact on tables that need no
  alignment, the same row axis for side-by-side concatenation and the same columns for
  stacking, and refuses the others. The two capabilities of the export are constants:
  no run below reaches them.
\<close>

fun text_of :: "pyval \<Rightarrow> string" where
  "text_of (PyStr s) = s"
| "text_of v = ''<value>''"

fun append_column :: "column \<Rightarrow> column \<Rightarrow> column option" where
  "append_column (NumCol xs) (NumCol ys) = Some (NumCol (xs @ ys))"
| "append_column (ObjCol xs) (ObjCol ys) = Some (ObjCol (xs @ ys))"
| "append_column c d = None"

fun append_columns ::
  "(pyval \<times> column) list \<Rightarrow> (pyval \<times> column) list \<Rightarrow> (pyval \<times> column) list option"
where
  "append_columns [] [] = Some []"
| "append_columns ((l, c) # cs) ((m, d) # ds) =
     (if l \<noteq> m then None
      else (case append_column c d of
              None \<Rightarrow> None
            | Some e \<Rightarrow>
                (case append_columns cs ds of None \<Rightarrow> None | Some es \<Rightarrow> Some ((l, e) # es))))"
| "append_columns cs ds = None"

fun append_index :: "axis_index \<Rightarrow> axis_index \<Rightarrow> axis_index" where
  "append_index (DatetimeIndex a) (DatetimeIndex b) = DatetimeIndex (a @ b)"
| "append_index (TimedeltaIndex a) (TimedeltaIndex b) = TimedeltaIndex (a @ b)"
| "append_index (RangeIndex a) (RangeIndex b) = Int64Index (a @ b)"
| "append_index (RangeIndex a) (Int64Index b) = Int64Index (a @ b)"
| "append_index (Int64Index a) (RangeIndex b) = Int64Index (a @ b)"
| "append_index (Int64Index a) (Int64Index b) = Int64Index (a @ b)"
| "append_index (Float64Index a) (Float64Index b) = Float64Index (a @ b)"
| "append_index (MultiIndex a) (MultiIndex b) = MultiIndex (a @ b)"
| "append_index a b = ObjectIndex (idx_values a @ idx_values b)"

fun stack_tables :: "table \<Rightarrow> table list \<Rightarrow> error + table" where
  "stack_tables t [] = Inr t"
| "stack_tables t (u # us) =
     (case append_columns (columns t) (columns u) of
        None \<Rightarrow> Inl (ValueError ''alignment of differing columns is not covered'')
      | Some cs \<Rightarrow> stack_tables \<lparr>index = append_index (index t) (index u), columns = cs\<rparr> us)"

definition concat_aligned :: "table list \<Rightarrow> int \<Rightarrow> error + table" where
  "concat_aligned ts axis =
     (case ts of
        [] \<Rightarrow> Inl (ValueError ''No objects to concatenate'')
      | t # us \<Rightarrow>
          (if axis = 1 then
             (if list_all (\<lambda>u. index u = index t) us
              then Inr \<lparr>index = index t, columns = concat (map columns ts)\<rparr>
              else Inl (ValueError ''alignment of differing row axes is not covered''))
           else if axis = 0 then stack_tables t us
           else Inl (ValueError ''No axis named'')))"

definition reference_host :: host where
  "reference_host =
     \<lparr>format_value = text_of,
      pd_concat = concat_aligned,
      isoformat = (\<lambda>t. ''<time>''),
      json_dumps = (\<lambda>d. Inr ''<json>'')\<rparr>"

text \<open>
  Two days of readings taken at the same two times of day, grouped by day: each group
  table keeps the rows of its day, the grouping column included.
\<close>

definition day1 :: table where
  "day1 = \<lparr>index = ObjectIndex [PyStr ''t0'', PyStr ''t1''],
           columns = [(PyStr ''day'', ObjCol [PyStr ''d1'', PyStr ''d1'']),
                      (PyStr ''a'', NumCol [Fin 3, Fin 5])]\<rparr>"

definition day2 :: table where
  "day2 = \<lparr>index = ObjectIndex [PyStr ''t0'', PyStr ''t1''],
           columns = [(PyStr ''day'', ObjCol [PyStr ''d2'', PyStr ''d2'']),
                      (PyStr ''a'', NumCol [Fin 10, Fin 20])]\<rparr>"

definition by_day :: wrapper where
  "by_day = \<lparr>obj = Grouped [(PyStr ''d1'', day1), (PyStr ''d2'', day2)], pipedFunctions = []\<rparr>"

definition ungrouped :: wrapper where
  "ungrouped = \<lparr>obj = Frame day1, pipedFunctions = []\<rparr>"

text \<open>A step that gives every column of a table the label \<open>renamed\<close>.\<close>

definition rename_columns :: "table \<Rightarrow> error + table" where
  "rename_columns df = Inr (df\<lparr>columns := map (\<lambda>c. (PyStr ''renamed'', snd c)) (columns df)\<rparr>)"

text \<open>Readings at two time stamps, and a wrapper with an empty pipeline.\<close>

definition timed :: table where
  "timed = \<lparr>index = DatetimeIndex [100, 160], columns = [(PyStr ''a'', NumCol [Fin 3, Fin 5])]\<rparr>"

definition fresh :: wrapper where
  "fresh = \<lparr>obj = Frame timed, pipedFunctions = []\<rparr>"

text \<open>Readings with a missing value in the first row.\<close>

definition gappy :: table where
  "gappy = \<lparr>index = Int64Index [0, 1], columns = [(PyStr ''a'', NumCol [NaN, Fin 1])]\<rparr>"

section \<open>Properties\<close>

lemma reduce_append:
  "reduce f (gs @ hs) acc =
     (case reduce f gs acc of Inl e \<Rightarrow> Inl e | Inr acc' \<Rightarrow> reduce f hs acc')"
  by (induction gs arbitrary: acc) (auto split: sum.splits)

lemma pipe_static_snoc:
  "pipe_static (fs @ [f]) x =
     (case pipe_static fs x of Inl e \<Rightarrow> Inl e | Inr y \<Rightarrow> f y)"
  by (simp add: pipe_static_def reduce_append split: sum.splits)

lemma pipe_static_left_to_right: "pipe_static fs x = left_to_right fs x"
proof (induction fs rule: rev_induct)
  case Nil
  show ?case by (simp add: pipe_static_def left_to_right_def)
next
  case (snoc f fs)
  then show ?case by (simp add: pipe_static_snoc left_to_right_def)
qed

lemma pipedFunctions_foldl_pipe:
  "pipedFunctions (foldl pipe w batches) = pipedFunctions w @ concat batches"
  by (induction batches arbitrary: w) (simp_all add: pipe_def)

lemma nested_call_total:
  "nested_call (map (\<lambda>f. Inr \<circ> f) gs) x = Inr (foldr (\<lambda>f a. f a) gs x)"
  by (induction gs) simp_all

text \<open>
  C1. Whatever functions were registered through \<open>pipe\<close>, in one call or several, on a
  wrapper that starts with an empty pipeline, the composed pipeline applied to \<open>x\<close> is
  the nested call \<open>f\<^sub>n(...f\<^sub>2(f\<^sub>1(x)))\<close> of the registered functions in registration
  order; for functions that return, this is the value \<open>f\<^sub>n(...(f\<^sub>1 x))\<close>; and with
  nothing registered the pipeline returns \<open>x\<close> unchanged.
\<close>

theorem pipeline_is_left_to_right_composition:
  "pipeline (foldl pipe (w\<lparr>pipedFunctions := []\<rparr>) batches) x
     = left_to_right (concat batches) x
   \<and> pipeline (pipe (w\<lparr>pipedFunctions := []\<rparr>) (map (\<lambda>f. Inr \<circ> f) fs)) x
     = Inr (foldr (\<lambda>f a. f a) (rev fs) x)
   \<and> pipeline (w\<lparr>pipedFunctions := []\<rparr>) x = Inr x"
proof (intro conjI)
  show "pipeline (foldl pipe (w\<lparr>pipedFunctions := []\<rparr>) batches) x
          = left_to_right (concat batches) x"
    by (simp add: pipeline_def pipedFunctions_foldl_pipe pipe_static_left_to_right)
next
  have "pipe_static (map (\<lambda>f. Inr \<circ> f) fs) x
          = nested_call (map (\<lambda>f. Inr \<circ> f) (rev fs)) x"
    by (simp add: pipe_static_left_to_right left_to_right_def rev_map)
  then show "pipeline (pipe (w\<lparr>pipedFunctions := []\<rparr>) (map (\<lambda>f. Inr \<circ> f) fs)) x
          = Inr (foldr (\<lambda>f a. f a) (rev fs) x)"
    by (simp add: pipeline_def pipe_def nested_call_total)
next
  show "pipeline (w\<lparr>pipedFunctions := []\<rparr>) x = Inr x"
    by (simp add: pipeline_def pipe_static_def)
qed

theorem pipeline_is_left_to_right_composition_witness:
  "pipeline
     (foldl pipe by_day
        [[execute_step reference_host (PyInt 0) None ''subtract''],
         [execute_step reference_host (PyInt 1) None ''add'']]) day1
   = execute_step reference_host (PyInt 1) None ''add''
       \<lparr>index = ObjectIndex [PyStr ''t0'', PyStr ''t1''],
        columns = [(PyStr ''day'', ObjCol [PyStr ''d1'', PyStr ''d1'']),
                   (PyStr ''a'', NumCol [Fin 0, Fin 2])]\<rparr>
   \<and> pipeline
     (foldl pipe by_day
        [[execute_step reference_host (PyInt 0) None ''subtract''],
         [execute_step reference_host (PyInt 1) None ''add'']]) day1
   = Inr \<lparr>index = ObjectIndex [PyStr ''t0'', PyStr ''t1''],
          columns = [(PyStr ''day'', ObjCol [PyStr ''d1'', PyStr ''d1'']),
                     (PyStr ''a'', NumCol [Fin 2, Fin 4])]\<rparr>"
proof -
  have e: "by_day\<lparr>pipedFunctions := []\<rparr> = by_day" by (simp add: by_day_def)
  have r: "execute_step reference_host (PyInt 0) None ''subtract'' day1
      = Inr \<lparr>index = ObjectIndex [PyStr ''t0'', PyStr ''t1''],
        columns = [(PyStr ''day'', ObjCol [PyStr ''d1'', PyStr ''d1'']),
                   (PyStr ''a'', NumCol [Fin 0, Fin 2])]\<rparr>"
    by (simp add: execute_step_def execute_def getIdxFrom_def contains_def operation_func_def
        numeric_labels_unique_def same_label_def
        apply_frame_def apply_func_def iloc_def idx_len_def xsub_def day1_def)
  have s: "execute_step reference_host (PyInt 1) None ''add''
       \<lparr>index = ObjectIndex [PyStr ''t0'', PyStr ''t1''],
        columns = [(PyStr ''day'', ObjCol [PyStr ''d1'', PyStr ''d1'']),
                   (PyStr ''a'', NumCol [Fin 0, Fin 2])]\<rparr>
     = Inr \<lparr>index = ObjectIndex [PyStr ''t0'', PyStr ''t1''],
          columns = [(PyStr ''day'', ObjCol [PyStr ''d1'', PyStr ''d1'']),
                     (PyStr ''a'', NumCol [Fin 2, Fin 4])]\<rparr>"
    by (simp add: execute_step_def execute_def getIdxFrom_def contains_def operation_func_def
        numeric_labels_unique_def same_label_def
        apply_frame_def apply_func_def iloc_def idx_len_def)
  from pipeline_is_left_to_right_composition
    [of by_day "[[execute_step reference_host (PyInt 0) None ''subtract''],
         [execute_step reference_host (PyInt 1) None ''add'']]" day1]
  have "pipeline
     (foldl pipe by_day
        [[execute_step reference_host (PyInt 0) None ''subtract''],
         [execute_step reference_host (PyInt 1) None ''add'']]) day1
   = execute_step reference_host (PyInt 1) None ''add''
       \<lparr>index = ObjectIndex [PyStr ''t0'', PyStr ''t1''],
        columns = [(PyStr ''day'', ObjCol [PyStr ''d1'', PyStr ''d1'']),
                   (PyStr ''a'', NumCol [Fin 0, Fin 2])]\<rparr>"
    by (simp add: e left_to_right_def r)
  with s show ?thesis by simp
qed





lemma operation_func_None:
  "operation \<notin> {''subtract'', ''add'', ''multiply'', ''divide''} \<Longrightarrow> operation_func operation = None"
  by (simp add: operation_func_def)

text \<open>
  C8. When the selector resolves to a position and the operation name is none of
  subtract, add, multiply and divide, \<^verbatim>\<open>_execute\<close> raises the \<^verbatim>\<open>ValueError\<close> of
  an invalid operation and the table is, when the call ends, what it was before.
\<close>

theorem execute_invalid_operation:
  assumes "resolved_position H df idx column = Inr pos"
    and "operation \<notin> {''subtract'', ''add'', ''multiply'', ''divide''}"
  shows "execute H df idx column operation =
           (Some (ValueError
              ''The provided operation to perform is not of subtract/add/multiply/divide''), df)"
proof (cases column)
  case None
  with assms(1) have "getIdxFrom H idx (idx_values (index df)) ''index'' = Inr pos"
    by (simp add: resolved_position_def row_labels_def)
  with None operation_func_None [OF assms(2)] show ?thesis
    by (simp add: execute_def)
next
  case (Some c)
  with assms(1) have
    "getIdxFrom H c (map fst (select_dtypes_number (columns df))) ''columns'' = Inr pos"
    by (simp add: resolved_position_def)
  with Some operation_func_None [OF assms(2)] show ?thesis
    by (simp add: execute_def)
qed

theorem execute_invalid_operation_witness:
  "resolved_position reference_host
     \<lparr>index = Int64Index [0, 1], columns = [(PyStr ''a'', NumCol [Fin 3, Fin 5])]\<rparr>
     (PyInt 0) None = Inr 0
   \<and> ''mod'' \<notin> {''subtract'', ''add'', ''multiply'', ''divide''}
   \<and> execute reference_host
        \<lparr>index = Int64Index [0, 1], columns = [(PyStr ''a'', NumCol [Fin 3, Fin 5])]\<rparr>
        (PyInt 0) None ''mod''
      = (Some (ValueError
           ''The provided operation to perform is not of subtract/add/multiply/divide''),
         \<lparr>index = Int64Index [0, 1], columns = [(PyStr ''a'', NumCol [Fin 3, Fin 5])]\<rparr>)"
proof -
  have r: "resolved_position reference_host
     \<lparr>index = Int64Index [0, 1], columns = [(PyStr ''a'', NumCol [Fin 3, Fin 5])]\<rparr>
     (PyInt 0) None = Inr 0"
    by (simp add: resolved_position_def row_labels_def getIdxFrom_def contains_def)
  have m: "''mod'' \<notin> {''subtract'', ''add'', ''multiply'', ''divide''}" by simp
  from execute_invalid_operation [OF r m] r m show ?thesis by blast
qed

text \<open>
  C5. A call of \<^verbatim>\<open>concat\<close> that returns a table leaves the wrapper with an empty
  pipeline and the same grouping; a call that raises leaves the wrapper, its pipeline
  included, as it was.
\<close>

theorem concat_clears_pipeline_on_success_only:
  "(\<forall>c w'. concat_groups H w multiIndex sep axis = (Inr c, w')
       \<longrightarrow> pipedFunctions w' = [] \<and> obj w' = obj w)
   \<and> (\<forall>e w'. concat_groups H w multiIndex sep axis = (Inl e, w') \<longrightarrow> w' = w)"
  by (auto simp add: concat_groups_def split: sum.splits)

lemma by_day_concat_ok:
  "concat_groups reference_host (subtract_op reference_host by_day (PyInt 0) None)
     (Some ''join'') ''|'' 1
   = (Inr \<lparr>index = ObjectIndex [PyStr ''t0'', PyStr ''t1''],
            columns = [(PyStr ''day|d1'', ObjCol [PyStr ''d1'', PyStr ''d1'']),
                       (PyStr ''a|d1'', NumCol [Fin 0, Fin 2]),
                       (PyStr ''day|d2'', ObjCol [PyStr ''d2'', PyStr ''d2'']),
                       (PyStr ''a|d2'', NumCol [Fin 0, Fin 10])]\<rparr>,
      (subtract_op reference_host by_day (PyInt 0) None)\<lparr>pipedFunctions := []\<rparr>)"
  by (simp add: concat_groups_def validatePipelineObject_def by_day_def day1_def day2_def
      subtract_op_def pipe_def pipeline_def pipe_static_def execute_step_def execute_def
      numeric_labels_unique_def same_label_def
      getIdxFrom_def contains_def operation_func_def apply_frame_def apply_func_def iloc_def
      idx_len_def xsub_def reference_host_def concat_aligned_def relabel_def then_do_def
      set_columns_def newNames_join_def column_labels_def)

lemma by_day_concat_raises:
  "concat_groups reference_host (subtract_op reference_host by_day (PyStr ''noon'') None)
     (Some ''join'') ''|'' 1
   = (Inl (TypeError ''noon is not a valid index identifier.''),
      subtract_op reference_host by_day (PyStr ''noon'') None)"
  by (simp add: concat_groups_def validatePipelineObject_def by_day_def day1_def day2_def
      subtract_op_def pipe_def pipeline_def pipe_static_def execute_step_def execute_def
      getIdxFrom_def contains_def reference_host_def)

theorem concat_clears_pipeline_on_success_only_witness:
  "pipedFunctions (snd (concat_groups reference_host
       (subtract_op reference_host by_day (PyInt 0) None) (Some ''join'') ''|'' 1)) = []
   \<and> length (pipedFunctions (subtract_op reference_host by_day (PyInt 0) None)) = 1
   \<and> snd (concat_groups reference_host
       (subtract_op reference_host by_day (PyStr ''noon'') None) (Some ''join'') ''|'' 1)
     = subtract_op reference_host by_day (PyStr ''noon'') None
   \<and> length (pipedFunctions (subtract_op reference_host by_day (PyStr ''noon'') None)) = 1"
proof -
  have cleared: "pipedFunctions (snd (concat_groups reference_host
       (subtract_op reference_host by_day (PyInt 0) None) (Some ''join'') ''|'' 1)) = []"
    using concat_clears_pipeline_on_success_only
      [of reference_host "subtract_op reference_host by_day (PyInt 0) None" "Some ''join''" "''|''" 1]
    by (simp add: by_day_concat_ok)
  have kept: "snd (concat_groups reference_host
       (subtract_op reference_host by_day (PyStr ''noon'') None) (Some ''join'') ''|'' 1)
     = subtract_op reference_host by_day (PyStr ''noon'') None"
    using concat_clears_pipeline_on_success_only
      [of reference_host "subtract_op reference_host by_day (PyStr ''noon'') None" "Some ''join''" "''|''" 1]
    by (simp add: by_day_concat_raises)
  have "length (pipedFunctions (subtract_op reference_host by_day (PyInt 0) None)) = 1"
    and "length (pipedFunctions (subtract_op reference_host by_day (PyStr ''noon'') None)) = 1"
    by (simp_all add: subtract_op_def pipe_def by_day_def)
  with cleared kept show ?thesis by blast
qed

text \<open>
  C6. On a wrapper whose wrapped object is a table, not a grouping, \<^verbatim>\<open>concat\<close> and
  \<^verbatim>\<open>toJSON\<close> raise the \<^verbatim>\<open>TypeError\<close> of the missing grouping whatever the
  pipeline holds, and leave the wrapper and the file system as they were.
\<close>

theorem reassembly_requires_grouping:
  assumes "obj w = Frame df"
  shows "concat_groups H w multiIndex sep axis =
           (Inl (TypeError
              ''A groupby operation has to be applied before a pipeline can be executed.''), w)
       \<and> toJSON H w fileName rowIndicesFieldName addMultiIndexWithSep axis fs =
           (Some (TypeError
              ''A groupby operation has to be applied before a pipeline can be executed.''), w, fs)"
  using assms by (simp add: concat_groups_def toJSON_def validatePipelineObject_def)

theorem reassembly_requires_grouping_witness:
  "obj (resetIndex ungrouped True) = Frame day1
   \<and> length (pipedFunctions (resetIndex ungrouped True)) = 1
   \<and> concat_groups reference_host (resetIndex ungrouped True) (Some ''hierarchy'') ''|'' 1 =
       (Inl (TypeError
          ''A groupby operation has to be applied before a pipeline can be executed.''),
        resetIndex ungrouped True)
   \<and> toJSON reference_host (resetIndex ungrouped True) ''out.json'' ''idx_'' ''|'' 1 Map.empty =
       (Some (TypeError
          ''A groupby operation has to be applied before a pipeline can be executed.''),
        resetIndex ungrouped True, Map.empty)"
proof -
  have f: "obj (resetIndex ungrouped True) = Frame day1"
    by (simp add: resetIndex_def pipe_def ungrouped_def)
  have n: "length (pipedFunctions (resetIndex ungrouped True)) = 1"
    by (simp add: resetIndex_def pipe_def ungrouped_def)
  from reassembly_requires_grouping [OF f] f n show ?thesis by blast
qed

lemma newNames_join_joined:
  "map PyStr (newNames_join H sep labels g) = joined_labels H sep labels g"
  by (induction g) (auto simp add: newNames_join_def)

lemma newNames_hierarchy_paired:
  "map (\<lambda>(k, y). PyPair k y) (newNames_hierarchy labels g) = paired_labels labels g"
  by (induction g) (auto simp add: newNames_hierarchy_def)

lemma set_columns_labels:
  "set_columns df names = Inr c \<Longrightarrow> column_labels c = names"
  by (auto simp add: set_columns_def column_labels_def split: if_splits)

lemma set_index_labels:
  "set_index df keys = Inr c \<Longrightarrow> index c = keys"
  by (auto simp add: set_index_def split: if_splits)

lemma relabel_join_columns:
  "relabel H g (Some ''join'') sep 1 c0 = set_columns c0 (joined_labels H sep column_labels g)"
  by (simp add: relabel_def then_do_def newNames_join_joined split: sum.splits)

lemma relabel_join_rows:
  "relabel H g (Some ''join'') sep 0 c0
     = set_index c0 (ObjectIndex (joined_labels H sep row_labels g))"
  by (simp add: relabel_def then_do_def newNames_join_joined split: sum.splits)

lemma relabel_hierarchy_columns:
  "relabel H g (Some ''hierarchy'') sep 1 c0 = Inr c \<Longrightarrow>
   column_labels c = paired_labels column_labels g"
  by (auto simp add: relabel_def then_do_def from_tuples_def newNames_hierarchy_paired
      dest: set_columns_labels split: sum.splits if_splits)

lemma relabel_hierarchy_rows:
  "relabel H g (Some ''hierarchy'') sep 0 c0 = Inr c \<Longrightarrow>
   row_labels c = paired_labels row_labels g"
  by (auto simp add: relabel_def then_do_def from_tuples_def row_labels_def
      newNames_hierarchy_paired [symmetric]
      dest!: set_index_labels split: sum.splits if_splits)

lemma concat_groups_Inr:
  "concat_groups H w multiIndex sep axis = (Inr c, w') \<Longrightarrow> obj w = Grouped g \<Longrightarrow>
   \<exists>ts c0. traverse (\<lambda>x. pipeline w (snd x)) g = Inr ts \<and> pd_concat H ts axis = Inr c0
     \<and> relabel H g multiIndex sep axis c0 = Inr c"
  by (auto simp add: concat_groups_def validatePipelineObject_def split: sum.splits)


lemma concat_groups_returns:
  assumes "obj w = Grouped g"
    and "traverse (\<lambda>x. pipeline w (snd x)) g = Inr ts"
    and "pd_concat H ts axis = Inr c0"
    and "relabel H g multiIndex sep axis c0 = Inr c"
  shows "concat_groups H w multiIndex sep axis = (Inr c, w\<lparr>pipedFunctions := []\<rparr>)"
  using assms by (simp add: concat_groups_def validatePipelineObject_def)

text \<open>
  C3. With \<^verbatim>\<open>multiIndex='join'\<close>, a table that \<^verbatim>\<open>concat\<close> returns has as column
  labels (\<^verbatim>\<open>axis=1\<close>) or as row labels (\<^verbatim>\<open>axis=0\<close>) exactly the texts
  \<open>"{L}{s}{G}"\<close> for the labels \<open>L\<close> of the group tables, group after group in the
  iteration order of the grouping. It returns such a table whenever the pipeline
  returns for every group and the concatenation of the host library returns a table
  with as many columns (rows) as the group tables have labels.
\<close>

theorem concat_join_labels:
  assumes "obj w = Grouped g"
  shows
    "(\<forall>c w'. concat_groups H w (Some ''join'') sep 1 = (Inr c, w')
        \<longrightarrow> column_labels c = joined_labels H sep column_labels g)
     \<and> (\<forall>c w'. concat_groups H w (Some ''join'') sep 0 = (Inr c, w')
        \<longrightarrow> row_labels c = joined_labels H sep row_labels g)
     \<and> (\<forall>ts c0. traverse (\<lambda>x. pipeline w (snd x)) g = Inr ts \<and> pd_concat H ts 1 = Inr c0
           \<and> length (columns c0) = length (joined_labels H sep column_labels g)
        \<longrightarrow> (\<exists>c. concat_groups H w (Some ''join'') sep 1 = (Inr c, w\<lparr>pipedFunctions := []\<rparr>)))
     \<and> (\<forall>ts c0. traverse (\<lambda>x. pipeline w (snd x)) g = Inr ts \<and> pd_concat H ts 0 = Inr c0
           \<and> idx_len (index c0) = length (joined_labels H sep row_labels g)
        \<longrightarrow> (\<exists>c. concat_groups H w (Some ''join'') sep 0 = (Inr c, w\<lparr>pipedFunctions := []\<rparr>)))"
proof (intro conjI allI impI)
  fix c w'
  assume "concat_groups H w (Some ''join'') sep 1 = (Inr c, w')"
  from concat_groups_Inr [OF this assms] obtain c0 where
    "relabel H g (Some ''join'') sep 1 c0 = Inr c" by blast
  then show "column_labels c = joined_labels H sep column_labels g"
    by (simp add: relabel_join_columns set_columns_labels)
next
  fix c w'
  assume "concat_groups H w (Some ''join'') sep 0 = (Inr c, w')"
  from concat_groups_Inr [OF this assms] obtain c0 where
    "relabel H g (Some ''join'') sep 0 c0 = Inr c" by blast
  then have "index c = ObjectIndex (joined_labels H sep row_labels g)"
    by (simp add: relabel_join_rows set_index_labels)
  then show "row_labels c = joined_labels H sep row_labels g"
    by (simp add: row_labels_def)
next
  fix ts c0
  assume a: "traverse (\<lambda>x. pipeline w (snd x)) g = Inr ts \<and> pd_concat H ts 1 = Inr c0
           \<and> length (columns c0) = length (joined_labels H sep column_labels g)"
  then have "\<exists>c. relabel H g (Some ''join'') sep 1 c0 = Inr c"
    by (simp add: relabel_join_columns set_columns_def)
  then obtain c where "relabel H g (Some ''join'') sep 1 c0 = Inr c" by blast
  with a assms have
    "concat_groups H w (Some ''join'') sep 1 = (Inr c, w\<lparr>pipedFunctions := []\<rparr>)"
    by (simp add: concat_groups_returns)
  then show "\<exists>c. concat_groups H w (Some ''join'') sep 1 = (Inr c, w\<lparr>pipedFunctions := []\<rparr>)"
    by blast
next
  fix ts c0
  assume a: "traverse (\<lambda>x. pipeline w (snd x)) g = Inr ts \<and> pd_concat H ts 0 = Inr c0
           \<and> idx_len (index c0) = length (joined_labels H sep row_labels g)"
  then have "\<exists>c. relabel H g (Some ''join'') sep 0 c0 = Inr c"
    by (simp add: relabel_join_rows set_index_def idx_len_def)
  then obtain c where "relabel H g (Some ''join'') sep 0 c0 = Inr c" by blast
  with a assms have
    "concat_groups H w (Some ''join'') sep 0 = (Inr c, w\<lparr>pipedFunctions := []\<rparr>)"
    by (simp add: concat_groups_returns)
  then show "\<exists>c. concat_groups H w (Some ''join'') sep 0 = (Inr c, w\<lparr>pipedFunctions := []\<rparr>)"
    by blast
qed

lemma by_day_side_by_side:
  "concat_groups reference_host by_day (Some ''join'') ''|'' 1
   = (Inr \<lparr>index = ObjectIndex [PyStr ''t0'', PyStr ''t1''],
            columns = [(PyStr ''day|d1'', ObjCol [PyStr ''d1'', PyStr ''d1'']),
                       (PyStr ''a|d1'', NumCol [Fin 3, Fin 5]),
                       (PyStr ''day|d2'', ObjCol [PyStr ''d2'', PyStr ''d2'']),
                       (PyStr ''a|d2'', NumCol [Fin 10, Fin 20])]\<rparr>,
      by_day\<lparr>pipedFunctions := []\<rparr>)"
  by (simp add: concat_groups_def validatePipelineObject_def by_day_def day1_def day2_def
      pipeline_def pipe_static_def reference_host_def concat_aligned_def relabel_def
      then_do_def set_columns_def newNames_join_def column_labels_def)

lemma by_day_stacked:
  "concat_groups reference_host by_day (Some ''join'') ''|'' 0
   = (Inr \<lparr>index = ObjectIndex [PyStr ''t0|d1'', PyStr ''t1|d1'', PyStr ''t0|d2'', PyStr ''t1|d2''],
            columns = [(PyStr ''day'', ObjCol [PyStr ''d1'', PyStr ''d1'', PyStr ''d2'', PyStr ''d2'']),
                       (PyStr ''a'', NumCol [Fin 3, Fin 5, Fin 10, Fin 20])]\<rparr>,
      by_day\<lparr>pipedFunctions := []\<rparr>)"
  by (simp add: concat_groups_def validatePipelineObject_def by_day_def day1_def day2_def
      pipeline_def pipe_static_def reference_host_def concat_aligned_def relabel_def
      then_do_def set_index_def idx_len_def newNames_join_def row_labels_def)

theorem concat_join_labels_witness:
  "obj by_day = Grouped [(PyStr ''d1'', day1), (PyStr ''d2'', day2)]
   \<and> column_labels (projr (fst (concat_groups reference_host by_day (Some ''join'') ''|'' 1)))
       = [PyStr ''day|d1'', PyStr ''a|d1'', PyStr ''day|d2'', PyStr ''a|d2'']
   \<and> row_labels (projr (fst (concat_groups reference_host by_day (Some ''join'') ''|'' 0)))
       = [PyStr ''t0|d1'', PyStr ''t1|d1'', PyStr ''t0|d2'', PyStr ''t1|d2'']"
proof -
  have g: "obj by_day = Grouped [(PyStr ''d1'', day1), (PyStr ''d2'', day2)]"
    by (simp add: by_day_def)
  have j1: "joined_labels reference_host ''|'' column_labels [(PyStr ''d1'', day1), (PyStr ''d2'', day2)]
      = [PyStr ''day|d1'', PyStr ''a|d1'', PyStr ''day|d2'', PyStr ''a|d2'']"
    by (simp add: column_labels_def day1_def day2_def reference_host_def)
  have j0: "joined_labels reference_host ''|'' row_labels [(PyStr ''d1'', day1), (PyStr ''d2'', day2)]
      = [PyStr ''t0|d1'', PyStr ''t1|d1'', PyStr ''t0|d2'', PyStr ''t1|d2'']"
    by (simp add: row_labels_def day1_def day2_def reference_host_def)
  from concat_join_labels [OF g, of reference_host "''|''"] by_day_side_by_side by_day_stacked
  have "column_labels (projr (fst (concat_groups reference_host by_day (Some ''join'') ''|'' 1)))
       = joined_labels reference_host ''|'' column_labels [(PyStr ''d1'', day1), (PyStr ''d2'', day2)]"
    and "row_labels (projr (fst (concat_groups reference_host by_day (Some ''join'') ''|'' 0)))
       = joined_labels reference_host ''|'' row_labels [(PyStr ''d1'', day1), (PyStr ''d2'', day2)]"
    by simp_all
  with g j1 j0 show ?thesis by simp
qed

text \<open>
  C10. Under \<^verbatim>\<open>multiIndex='join'\<close> and \<^verbatim>\<open>multiIndex='hierarchy'\<close>, the column labels
  (\<^verbatim>\<open>axis=1\<close>) or row labels (\<^verbatim>\<open>axis=0\<close>) of a table that \<^verbatim>\<open>concat\<close> returns are
  computed from the group tables of the grouping as they are before the pipeline runs:
  they do not depend on the pipeline, so a piped function that changes the labels of a
  group table does not change the labels of the result.
\<close>

theorem concat_labels_from_untransformed_groups:
  assumes "obj w = Grouped g"
    and "multiIndex = Some ''join'' \<or> multiIndex = Some ''hierarchy''"
    and "concat_groups H w multiIndex sep axis = (Inr c, w')"
  shows "(axis = 1 \<longrightarrow> column_labels c = labels_of_groups H multiIndex sep column_labels g)
       \<and> (axis = 0 \<longrightarrow> row_labels c = labels_of_groups H multiIndex sep row_labels g)"
proof -
  from concat_groups_Inr [OF assms(3) assms(1)] obtain c0 where
    r: "relabel H g multiIndex sep axis c0 = Inr c" by blast
  show ?thesis
  proof (intro conjI impI)
    assume "axis = 1"
    with r assms(2) show "column_labels c = labels_of_groups H multiIndex sep column_labels g"
      by (auto simp add: labels_of_groups_def relabel_join_columns
          dest: set_columns_labels relabel_hierarchy_columns)
  next
    assume "axis = 0"
    show "row_labels c = labels_of_groups H multiIndex sep row_labels g"
    proof (cases "multiIndex = Some ''join''")
      case True
      with r \<open>axis = 0\<close> have "index c = ObjectIndex (joined_labels H sep row_labels g)"
        by (simp add: relabel_join_rows set_index_labels)
      with True show ?thesis by (simp add: labels_of_groups_def row_labels_def)
    next
      case False
      with assms(2) have h: "multiIndex = Some ''hierarchy''" by blast
      with r \<open>axis = 0\<close> have "row_labels c = paired_labels row_labels g"
        by (simp add: relabel_hierarchy_rows)
      with h show ?thesis by (simp add: labels_of_groups_def)
    qed
  qed
qed

lemma by_day_renamed:
  "concat_groups reference_host (pipe by_day [rename_columns]) (Some ''hierarchy'') ''|'' 1
   = (Inr \<lparr>index = ObjectIndex [PyStr ''t0'', PyStr ''t1''],
            columns = [(PyPair (PyStr ''d1'') (PyStr ''day''), ObjCol [PyStr ''d1'', PyStr ''d1'']),
                       (PyPair (PyStr ''d1'') (PyStr ''a''), NumCol [Fin 3, Fin 5]),
                       (PyPair (PyStr ''d2'') (PyStr ''day''), ObjCol [PyStr ''d2'', PyStr ''d2'']),
                       (PyPair (PyStr ''d2'') (PyStr ''a''), NumCol [Fin 10, Fin 20])]\<rparr>,
      (pipe by_day [rename_columns])\<lparr>pipedFunctions := []\<rparr>)"
  by (simp add: concat_groups_def validatePipelineObject_def by_day_def day1_def day2_def
      pipe_def rename_columns_def from_tuples_def newNames_hierarchy_def
      pipeline_def pipe_static_def reference_host_def concat_aligned_def relabel_def
      then_do_def set_columns_def column_labels_def)

theorem concat_labels_from_untransformed_groups_witness:
  "column_labels (projr (pipeline (pipe by_day [rename_columns]) day1))
     = [PyStr ''renamed'', PyStr ''renamed'']
   \<and> column_labels
       (projr (fst (concat_groups reference_host (pipe by_day [rename_columns])
                      (Some ''hierarchy'') ''|'' 1)))
     = [PyPair (PyStr ''d1'') (PyStr ''day''), PyPair (PyStr ''d1'') (PyStr ''a''),
        PyPair (PyStr ''d2'') (PyStr ''day''), PyPair (PyStr ''d2'') (PyStr ''a'')]"
proof -
  have g: "obj (pipe by_day [rename_columns]) = Grouped [(PyStr ''d1'', day1), (PyStr ''d2'', day2)]"
    by (simp add: by_day_def pipe_def)
  have l: "labels_of_groups reference_host (Some ''hierarchy'') ''|'' column_labels
             [(PyStr ''d1'', day1), (PyStr ''d2'', day2)]
      = [PyPair (PyStr ''d1'') (PyStr ''day''), PyPair (PyStr ''d1'') (PyStr ''a''),
         PyPair (PyStr ''d2'') (PyStr ''day''), PyPair (PyStr ''d2'') (PyStr ''a'')]"
    by (simp add: labels_of_groups_def column_labels_def day1_def day2_def)
  have p: "column_labels (projr (pipeline (pipe by_day [rename_columns]) day1))
     = [PyStr ''renamed'', PyStr ''renamed'']"
    by (simp add: pipeline_def pipe_static_def pipe_def by_day_def rename_columns_def
        column_labels_def day1_def)
  from concat_labels_from_untransformed_groups [OF g _ by_day_renamed]
  have "column_labels
       (projr (fst (concat_groups reference_host (pipe by_day [rename_columns])
                      (Some ''hierarchy'') ''|'' 1)))
     = labels_of_groups reference_host (Some ''hierarchy'') ''|'' column_labels
             [(PyStr ''d1'', day1), (PyStr ''d2'', day2)]"
    by (simp add: by_day_renamed)
  with l p show ?thesis by simp
qed

lemma resetIndex_step:
  "pipeline (resetIndex (w\<lparr>pipedFunctions := []\<rparr>) handleFuture) df = resetIndex_static df 0 True"
  by (simp add: resetIndex_def pipe_def pipeline_def pipe_static_def split: sum.splits)

lemma hd_map_sub: "xs \<noteq> [] \<Longrightarrow> hd (map f xs) = f (hd xs)"
  by (cases xs) simp_all

lemma iloc_0: "xs \<noteq> [] \<Longrightarrow> iloc xs 0 = Inr (hd xs)"
  by (cases xs) (simp_all add: iloc_def)

lemma resetIndex_static_datetime:
  assumes "index df = DatetimeIndex ts" and "ts \<noteq> []"
  shows "resetIndex_static df 0 True = Inr (df\<lparr>index := DatetimeIndex (map (\<lambda>t. t - hd ts) ts)\<rparr>)"
  using assms
  by (simp add: resetIndex_static_def index_getitem_def iloc_0 hd_map_sub set_index_def idx_len_def)

lemma resetIndex_static_range:
  assumes "index df = RangeIndex ns" and "ns \<noteq> []"
  shows "resetIndex_static df 0 True = Inr (df\<lparr>index := RangeIndex (map (\<lambda>n. n - hd ns) ns)\<rparr>)"
  using assms
  by (simp add: resetIndex_static_def index_getitem_def iloc_0 hd_map_sub set_index_def idx_len_def)

lemma resetIndex_static_int64:
  assumes "index df = Int64Index ns" and "ns \<noteq> []"
  shows "resetIndex_static df 0 True = Inr (df\<lparr>index := Int64Index (map (\<lambda>n. n - hd ns) ns)\<rparr>)"
  using assms
  by (simp add: resetIndex_static_def index_getitem_def iloc_0 hd_map_sub set_index_def idx_len_def)

lemma resetIndex_static_float64:
  assumes "index df = Float64Index xs" and "xs \<noteq> []"
  shows "resetIndex_static df 0 True = Inr (df\<lparr>index := Float64Index (map (\<lambda>x. xsub x (hd xs)) xs)\<rparr>)"
  using assms
  by (simp add: resetIndex_static_def index_getitem_def iloc_0 hd_map_sub set_index_def idx_len_def)

lemma xsub_self: "xsub (Fin a) (Fin a) = Fin 0"
  by (simp add: xsub_def)

text \<open>
  C2, as the code has it. On a non-empty numeric or time-like row axis, the registered
  index-normalization step returns the table with its data unchanged and the entry at
  position \<open>i\<close> of the new axis the offset \<open>original[i] - original[0]\<close>: as a number
  on a numeric axis and, on a time-like axis, as the time stamp lying that duration
  after the epoch. The entry at the reference position is the epoch on a time-like
  axis, 0 on a range or integer axis, and 0 on a floating-point axis whose reference
  entry is finite.
\<close>

theorem resetIndex_rebases_axis:
  assumes "numeric_or_time (index df)" and "0 < idx_len (index df)"
  shows "\<exists>df'. pipeline (resetIndex (w\<lparr>pipedFunctions := []\<rparr>) handleFuture) df = Inr df'
       \<and> columns df' = columns df
       \<and> row_labels df' = map (\<lambda>v. after_epoch (offset_from (hd (row_labels df)) v)) (row_labels df)
       \<and> (is_datetime_index (index df) \<longrightarrow> hd (row_labels df') = Timestamp 0)
       \<and> (\<forall>ns. index df = RangeIndex ns \<longrightarrow> hd (row_labels df') = PyInt 0)
       \<and> (\<forall>ns. index df = Int64Index ns \<longrightarrow> hd (row_labels df') = NpInt 0)
       \<and> (\<forall>xs a. index df = Float64Index xs \<and> hd xs = Fin a
             \<longrightarrow> hd (row_labels df') = NpFloat (Fin 0))"
proof (cases "index df")
  case (DatetimeIndex ts)
  with assms(2) have ne: "ts \<noteq> []" by (auto simp add: idx_len_def)
  show ?thesis
    using DatetimeIndex ne resetIndex_static_datetime [OF DatetimeIndex ne]
    by (simp add: resetIndex_step row_labels_def hd_map_sub comp_def)
next
  case (RangeIndex ns)
  with assms(2) have ne: "ns \<noteq> []" by (auto simp add: idx_len_def)
  show ?thesis
    using RangeIndex ne resetIndex_static_range [OF RangeIndex ne]
    by (simp add: resetIndex_step row_labels_def hd_map_sub comp_def)
next
  case (Int64Index ns)
  with assms(2) have ne: "ns \<noteq> []" by (auto simp add: idx_len_def)
  show ?thesis
    using Int64Index ne resetIndex_static_int64 [OF Int64Index ne]
    by (simp add: resetIndex_step row_labels_def hd_map_sub comp_def)
next
  case (Float64Index xs)
  with assms(2) have ne: "xs \<noteq> []" by (auto simp add: idx_len_def)
  show ?thesis
    using Float64Index ne resetIndex_static_float64 [OF Float64Index ne]
    by (auto simp add: resetIndex_step row_labels_def hd_map_sub comp_def xsub_self)
next
  case (TimedeltaIndex ds)
  with assms(1) show ?thesis by simp
next
  case (ObjectIndex vs)
  with assms(1) show ?thesis by simp
next
  case (MultiIndex ps)
  with assms(1) show ?thesis by simp
qed

lemma timed_step:
  "pipeline (resetIndex fresh True) timed
     = Inr \<lparr>index = DatetimeIndex [0, 60], columns = [(PyStr ''a'', NumCol [Fin 3, Fin 5])]\<rparr>"
  by (simp add: resetIndex_def pipe_def pipeline_def pipe_static_def fresh_def timed_def
      resetIndex_static_def index_getitem_def iloc_def set_index_def idx_len_def)

theorem resetIndex_rebases_axis_witness:
  "numeric_or_time (index timed) \<and> 0 < idx_len (index timed)
   \<and> row_labels (projr (pipeline (resetIndex fresh True) timed)) = [Timestamp 0, Timestamp 60]"
proof -
  have a: "numeric_or_time (index timed)" and b: "0 < idx_len (index timed)"
    by (simp_all add: timed_def idx_len_def)
  have f: "fresh\<lparr>pipedFunctions := []\<rparr> = fresh" by (simp add: fresh_def)
  from resetIndex_rebases_axis [OF a b, of fresh True]
  have "row_labels (projr (pipeline (resetIndex fresh True) timed))
      = map (\<lambda>v. after_epoch (offset_from (hd (row_labels timed)) v)) (row_labels timed)"
    by (auto simp add: f)
  also have "\<dots> = [Timestamp 0, Timestamp 60]"
    by (simp add: row_labels_def timed_def)
  finally show ?thesis using a b by simp
qed

text \<open>
  The claim C2 as stated fails on a time-like axis: after the step, the entry at the
  reference position is the epoch and not the original time stamp.
\<close>

theorem resetIndex_reference_entry_counterexample:
  "pipeline (resetIndex fresh True) timed
     = Inr \<lparr>index = DatetimeIndex [0, 60], columns = [(PyStr ''a'', NumCol [Fin 3, Fin 5])]\<rparr>
   \<and> row_labels timed ! 0 = Timestamp 100
   \<and> row_labels \<lparr>index = DatetimeIndex [0, 60], columns = [(PyStr ''a'', NumCol [Fin 3, Fin 5])]\<rparr> ! 0
       \<noteq> row_labels timed ! 0"
  using timed_step by (simp add: row_labels_def timed_def)

text \<open>
  C7 on the code. The step registered by \<^verbatim>\<open>resetIndex(handleFuture=False)\<close> returns
  an axis of time stamps: the method does not pass its argument on, and the step runs
  \<^verbatim>\<open>_resetIndex\<close> with its default \<^verbatim>\<open>handleFuture=True\<close>. Called with
  \<^verbatim>\<open>handleFuture=False\<close>, \<^verbatim>\<open>_resetIndex\<close> itself leaves the durations.
\<close>

theorem resetIndex_ignores_handleFuture:
  "pipeline (resetIndex fresh False) timed
     = Inr \<lparr>index = DatetimeIndex [0, 60], columns = [(PyStr ''a'', NumCol [Fin 3, Fin 5])]\<rparr>
   \<and> resetIndex_static timed 0 False
     = Inr \<lparr>index = TimedeltaIndex [0, 60], columns = [(PyStr ''a'', NumCol [Fin 3, Fin 5])]\<rparr>
   \<and> resetIndex fresh False = resetIndex fresh True"
  by (simp add: resetIndex_def pipe_def pipeline_def pipe_static_def fresh_def timed_def
      resetIndex_static_def index_getitem_def iloc_def set_index_def idx_len_def)

text \<open>
  Selection by label and by position. Where no numeric column shares its label, the
  columns that \<^verbatim>\<open>df.loc[:, numericCols]\<close> selects are the numeric columns; where one
  does, as in a table whose text column and numeric column are both labelled
  \<open>renamed\<close>, the selection takes the other column too.
\<close>

lemma select_dtypes_number_mem:
  "c \<in> set (select_dtypes_number cols) \<Longrightarrow> (fst c, NumCol (snd c)) \<in> set cols"
  by (induction cols rule: select_dtypes_number.induct) auto

lemma singleton_by_member:
  "length xs = 1 \<Longrightarrow> x \<in> set xs \<Longrightarrow> xs = [x]"
  by (cases xs) auto

lemma loc_columns_numeric:
  assumes "numeric_labels_unique cols"
  shows "loc_columns cols (map fst (select_dtypes_number cols))
           = map (\<lambda>c. (fst c, NumCol (snd c))) (select_dtypes_number cols)"
proof -
  have one: "filter (\<lambda>d. same_label (fst d) (fst c)) cols = [(fst c, NumCol (snd c))]"
    if c: "c \<in> set (select_dtypes_number cols)" for c
  proof -
    from assms c have "length (filter (\<lambda>d. same_label (fst d) (fst c)) cols) = 1"
      by (auto simp add: numeric_labels_unique_def list_all_iff)
    moreover from select_dtypes_number_mem [OF c]
    have "(fst c, NumCol (snd c)) \<in> set (filter (\<lambda>d. same_label (fst d) (fst c)) cols)"
      by (simp add: same_label_def)
    ultimately show ?thesis by (rule singleton_by_member)
  qed
  have "concat (map (\<lambda>c. filter (\<lambda>d. same_label (fst d) (fst c)) cols) sel)
          = map (\<lambda>c. (fst c, NumCol (snd c))) sel"
    if "set sel \<subseteq> set (select_dtypes_number cols)" for sel
    using that by (induction sel) (simp_all add: one)
  from this [of "select_dtypes_number cols"] show ?thesis
    by (simp add: loc_columns_def comp_def)
qed

lemma loc_columns_shared_label:
  "loc_columns [(PyStr ''renamed'', ObjCol [PyStr ''d1'', PyStr ''d1'']),
                (PyStr ''renamed'', NumCol [Fin 3, Fin 5])]
     (map fst (select_dtypes_number
        [(PyStr ''renamed'', ObjCol [PyStr ''d1'', PyStr ''d1'']),
         (PyStr ''renamed'', NumCol [Fin 3, Fin 5])]))
   = [(PyStr ''renamed'', ObjCol [PyStr ''d1'', PyStr ''d1'']),
      (PyStr ''renamed'', NumCol [Fin 3, Fin 5])]
   \<and> \<not> numeric_labels_unique
         [(PyStr ''renamed'', ObjCol [PyStr ''d1'', PyStr ''d1'']),
          (PyStr ''renamed'', NumCol [Fin 3, Fin 5])]"
  by (simp add: loc_columns_def same_label_def numeric_labels_unique_def)

lemma traverse_apply_func_0:
  "list_all (\<lambda>x. x \<noteq> []) cols \<Longrightarrow>
   traverse (apply_func f 0) cols = Inr (map (\<lambda>x. map (\<lambda>v. f v (hd x)) x) cols)"
  by (induction cols) (simp_all add: apply_func_def iloc_0)

lemma map_empty_columns:
  "list_all (\<lambda>x. x = []) cols \<Longrightarrow> map (\<lambda>x. map (g x) x) cols = cols"
  by (induction cols) simp_all

lemma apply_frame_reference_row:
  assumes "list_all (\<lambda>x. length x = n) cols"
  shows "apply_frame f 0 ''index'' cols n = Inr (map (\<lambda>x. map (\<lambda>v. f v (hd x)) x) cols)"
proof (cases "n = 0")
  case True
  with assms have "list_all (\<lambda>x. x = []) cols" by (simp add: list_all_iff)
  from map_empty_columns [OF this] True show ?thesis by (simp add: apply_frame_def)
next
  case False
  with assms have "list_all (\<lambda>x. x \<noteq> []) cols" by (auto simp add: list_all_iff)
  from traverse_apply_func_0 [OF this] False show ?thesis
    by (cases cols) (simp_all add: apply_frame_def)
qed

lemma numeric_lengths:
  "list_all (\<lambda>c. column_len (snd c) = n) cs \<Longrightarrow>
   list_all (\<lambda>x. length x = n) (map snd (select_dtypes_number cs))"
  by (induction cs rule: select_dtypes_number.induct) simp_all

lemma assign_numeric_map:
  "assign_numeric cs (map (\<lambda>x. map (\<lambda>v. xsub v (hd x)) x) (map snd (select_dtypes_number cs)))
     = map (\<lambda>c. (fst c, subtract_reference (snd c))) cs"
  by (induction cs rule: select_dtypes_number.induct) simp_all

text \<open>
  C9, as the code has it. When the selector resolves to the row at position 0 of a
  well-formed table, \<^verbatim>\<open>_execute\<close> with the operation subtract, and so the step
  that \<^verbatim>\<open>subtract\<close> registers, returns the table with
  the same row axis and column labels, every non-numeric column unchanged and every
  numeric cell at row \<open>i\<close>, column \<open>c\<close> equal to \<open>original[i, c] - original[0, c]\<close>. The
  cell at row 0 of a numeric column is 0 when the original cell is a finite number;
  when the original cell is missing (NaN) or infinite, it is NaN.
\<close>

theorem subtract_reference_row:
  assumes "well_formed df" and "resolved_position H df idx None = Inr 0"
  shows "execute H df idx None ''subtract''
           = (None, df\<lparr>columns := map (\<lambda>c. (fst c, subtract_reference (snd c))) (columns df)\<rparr>)
       \<and> pipeline (subtract_op H (w\<lparr>pipedFunctions := []\<rparr>) idx None) df
           = Inr (df\<lparr>columns := map (\<lambda>c. (fst c, subtract_reference (snd c))) (columns df)\<rparr>)
       \<and> (\<forall>l xs a. (l, NumCol xs) \<in> set (columns df) \<and> xs \<noteq> [] \<and> hd xs = Fin a
             \<longrightarrow> (\<exists>ys. subtract_reference (NumCol xs) = NumCol ys \<and> hd ys = Fin 0))
       \<and> (\<forall>l xs. (l, NumCol xs) \<in> set (columns df) \<and> xs \<noteq> [] \<and> (\<forall>a. hd xs \<noteq> Fin a)
             \<longrightarrow> (\<exists>ys. subtract_reference (NumCol xs) = NumCol ys \<and> hd ys = NaN))"
proof (intro conjI allI impI)
  from assms(2) have p: "getIdxFrom H idx (idx_values (index df)) ''index'' = Inr 0"
    by (simp add: resolved_position_def row_labels_def)
  from assms(1) have u: "numeric_labels_unique (columns df)"
    by (simp add: well_formed_def)
  from assms(1) have
    "list_all (\<lambda>x. length x = idx_len (index df)) (map snd (select_dtypes_number (columns df)))"
    by (simp add: well_formed_def numeric_lengths)
  from apply_frame_reference_row [OF this, of xsub] p u
  show e: "execute H df idx None ''subtract''
           = (None, df\<lparr>columns := map (\<lambda>c. (fst c, subtract_reference (snd c))) (columns df)\<rparr>)"
    by (simp add: execute_def operation_func_def assign_numeric_map del: map_map)
  show "pipeline (subtract_op H (w\<lparr>pipedFunctions := []\<rparr>) idx None) df
           = Inr (df\<lparr>columns := map (\<lambda>c. (fst c, subtract_reference (snd c))) (columns df)\<rparr>)"
    by (simp add: pipeline_def subtract_op_def pipe_def pipe_static_def execute_step_def e)
next
  fix l xs a
  assume "(l, NumCol xs) \<in> set (columns df) \<and> xs \<noteq> [] \<and> hd xs = Fin a"
  then show "\<exists>ys. subtract_reference (NumCol xs) = NumCol ys \<and> hd ys = Fin 0"
    by (simp add: hd_map_sub xsub_self)
next
  fix l xs
  assume a: "(l, NumCol xs) \<in> set (columns df) \<and> xs \<noteq> [] \<and> (\<forall>a. hd xs \<noteq> Fin a)"
  then have "xsub (hd xs) (hd xs) = NaN"
    by (cases "hd xs") (simp_all add: xsub_def)
  with a show "\<exists>ys. subtract_reference (NumCol xs) = NumCol ys \<and> hd ys = NaN"
    by (simp add: hd_map_sub)
qed

theorem subtract_reference_row_witness:
  "well_formed day1 \<and> resolved_position reference_host day1 (PyInt 0) None = Inr 0
   \<and> execute reference_host day1 (PyInt 0) None ''subtract''
       = (None, \<lparr>index = ObjectIndex [PyStr ''t0'', PyStr ''t1''],
                 columns = [(PyStr ''day'', ObjCol [PyStr ''d1'', PyStr ''d1'']),
                            (PyStr ''a'', NumCol [Fin 0, Fin 2])]\<rparr>)"
proof -
  have w: "well_formed day1"
    by (simp add: well_formed_def numeric_labels_unique_def same_label_def day1_def idx_len_def)
  have r: "resolved_position reference_host day1 (PyInt 0) None = Inr 0"
    by (simp add: resolved_position_def row_labels_def day1_def getIdxFrom_def contains_def)
  have "day1\<lparr>columns := map (\<lambda>c. (fst c, subtract_reference (snd c))) (columns day1)\<rparr>
      = \<lparr>index = ObjectIndex [PyStr ''t0'', PyStr ''t1''],
         columns = [(PyStr ''day'', ObjCol [PyStr ''d1'', PyStr ''d1'']),
                    (PyStr ''a'', NumCol [Fin 0, Fin 2])]\<rparr>"
    by (simp add: day1_def xsub_def)
  with subtract_reference_row [OF w r] w r show ?thesis by simp
qed

text \<open>
  The claim C9 as stated fails on a numeric column whose cell in the reference row is
  missing: the difference of NaN and NaN is NaN, not 0.
\<close>

theorem subtract_missing_reference_counterexample:
  "execute reference_host gappy (PyInt 0) None ''subtract''
     = (None, \<lparr>index = Int64Index [0, 1], columns = [(PyStr ''a'', NumCol [NaN, NaN])]\<rparr>)
   \<and> cell (NumCol [NaN, NaN]) 0 \<noteq> PyFloat (Fin 0)"
  by (simp add: execute_def gappy_def getIdxFrom_def contains_def operation_func_def
      numeric_labels_unique_def same_label_def apply_frame_def apply_func_def iloc_def idx_len_def xsub_def)

end
